theory Spec2Isabelle
  imports Complex_Main
begin

section \<open>Errors and arrays\<close>

text \<open>
  The tutorials are Python scripts over \<open>numpy\<close> and \<open>jax.numpy\<close> arrays. An exception is a
  value: every function that can raise returns \<open>error + 'a\<close>, with \<open>Inl\<close> for the exception.
\<close>

datatype error = ShapeError | IndexError | ValueError

text \<open>
  Arrays of rank 0, 1 and 2 over a type of numbers; a matrix is the list of its rows. The
  numbers of the code are float64 (both notebooks switch \<open>jax_enable_x64\<close> on), given below
  as the type \<open>f64\<close>; over the reals the same operations are exact.
\<close>

datatype 'n array = Scalar 'n | Vector "'n list" | Matrix "'n list list"

text \<open>Elementwise operations with a Python scalar broadcast over the array.\<close>

fun map_array :: "('n \<Rightarrow> 'n) \<Rightarrow> 'n array \<Rightarrow> 'n array" where
  "map_array f (Scalar x) = Scalar (f x)"
| "map_array f (Vector xs) = Vector (map f xs)"
| "map_array f (Matrix rows) = Matrix (map (map f) rows)"

definition dot :: "real list \<Rightarrow> real list \<Rightarrow> real" where
  "dot xs ys = sum_list (map2 (*) xs ys)"

section \<open>Float64 arithmetic\<close>

text \<open>
  A float64 is a finite number, an infinity or NaN. The finite values are kept as the real
  numbers they stand for; the sign of a zero is not kept.
\<close>

datatype f64 = Fin real | PInf | NInf | NaN

text \<open>
  Rounding to the nearest float64, ties to even. A nonzero \<open>x\<close> with
  \<open>2\<^sup>e \<le> \<bar>x\<bar> < 2\<^sup>e\<^sup>+\<^sup>1\<close> is rounded to a multiple of \<open>2\<^sup>e\<^sup>-\<^sup>5\<^sup>2\<close>, the spacing of the 53-bit
  significands at that exponent; below \<open>2\<^sup>-\<^sup>1\<^sup>0\<^sup>2\<^sup>2\<close> the spacing stays \<open>2\<^sup>-\<^sup>1\<^sup>0\<^sup>7\<^sup>4\<close> (subnormal numbers,
  and underflow to zero); a result of magnitude \<open>2\<^sup>1\<^sup>0\<^sup>2\<^sup>4\<close> or more overflows to an infinity.
\<close>

definition round_half_even :: "real \<Rightarrow> int" where
  "round_half_even q =
     (let r = \<lfloor>q\<rfloor>; f = q - of_int r
      in if f < 1 / 2 then r else if 1 / 2 < f then r + 1 else if even r then r else r + 1)"

definition round64 :: "real \<Rightarrow> f64" where
  "round64 x =
     (if x = 0 then Fin 0
      else let e = max \<lfloor>log 2 \<bar>x\<bar>\<rfloor> (- 1022);
               u = 2 powr of_int (e - 52);
               y = of_int (round_half_even (x / u)) * u
           in if 2 ^ 1024 \<le> \<bar>y\<bar> then (if 0 < x then PInf else NInf) else Fin y)"

text \<open>
  The operations of the code. Each returns the exact result rounded, with the special cases
  of the standard: NaN goes through every operation, a zero times an infinity, the
  difference of equal infinities, \<open>0 / 0\<close> and a quotient of infinities are NaN, and a
  nonzero number over zero is an infinity. \<open>exp\<close> is taken as correctly rounded; the
  library's \<open>exp\<close> may differ from that in the last place.
\<close>

fun f64_mul :: "f64 \<Rightarrow> f64 \<Rightarrow> f64" where
  "f64_mul NaN b = NaN"
| "f64_mul a NaN = NaN"
| "f64_mul (Fin x) (Fin y) = round64 (x * y)"
| "f64_mul (Fin x) PInf = (if x = 0 then NaN else if 0 < x then PInf else NInf)"
| "f64_mul (Fin x) NInf = (if x = 0 then NaN else if 0 < x then NInf else PInf)"
| "f64_mul PInf (Fin y) = (if y = 0 then NaN else if 0 < y then PInf else NInf)"
| "f64_mul NInf (Fin y) = (if y = 0 then NaN else if 0 < y then NInf else PInf)"
| "f64_mul PInf PInf = PInf"
| "f64_mul PInf NInf = NInf"
| "f64_mul NInf PInf = NInf"
| "f64_mul NInf NInf = PInf"

fun f64_add :: "f64 \<Rightarrow> f64 \<Rightarrow> f64" where
  "f64_add NaN b = NaN"
| "f64_add a NaN = NaN"
| "f64_add (Fin x) (Fin y) = round64 (x + y)"
| "f64_add PInf NInf = NaN"
| "f64_add NInf PInf = NaN"
| "f64_add PInf b = PInf"
| "f64_add NInf b = NInf"
| "f64_add (Fin x) b = b"

fun f64_neg :: "f64 \<Rightarrow> f64" where
  "f64_neg (Fin x) = Fin (- x)"
| "f64_neg PInf = NInf"
| "f64_neg NInf = PInf"
| "f64_neg NaN = NaN"

definition f64_sub :: "f64 \<Rightarrow> f64 \<Rightarrow> f64" where
  "f64_sub a b = f64_add a (f64_neg b)"

fun f64_div :: "f64 \<Rightarrow> f64 \<Rightarrow> f64" where
  "f64_div NaN b = NaN"
| "f64_div a NaN = NaN"
| "f64_div (Fin x) (Fin y) =
     (if y = 0 then (if x = 0 then NaN else if 0 < x then PInf else NInf)
      else round64 (x / y))"
| "f64_div (Fin x) b = Fin 0"
| "f64_div PInf (Fin y) = (if 0 \<le> y then PInf else NInf)"
| "f64_div NInf (Fin y) = (if 0 \<le> y then NInf else PInf)"
| "f64_div a b = NaN"

fun f64_exp :: "f64 \<Rightarrow> f64" where
  "f64_exp (Fin x) = round64 (exp x)"
| "f64_exp PInf = PInf"
| "f64_exp NInf = Fin 0"
| "f64_exp NaN = NaN"

text \<open>The constant 1 and the product \<open>*\<close> of float64.\<close>

instantiation f64 :: "{one, times}"
begin

definition one_f64 :: f64 where
  "one_f64 = Fin 1"

definition times_f64 :: "f64 \<Rightarrow> f64 \<Rightarrow> f64" where
  "times_f64 = f64_mul"

instance ..

end

section \<open>The parametrised mean function\<close>

text \<open>
  \<^verbatim>\<open>
  def mean_function(params, X):
      mod = jnp.exp(
          -0.5 * jnp.square((X - params["loc"]) / jnp.exp(params["log_width"]))
      )
      beta = jnp.array([1, mod])
      return params["amps"] @ beta
  \<close>
  The dictionary \<open>params\<close> is read at three keys; later cells add more keys, which the
  record scheme leaves open.
\<close>

record 'n params =
  amps :: "'n list"
  loc :: 'n
  log_width :: 'n

text \<open>
  \<open>jnp.array([1, mod])\<close> stacks the items of the list, which must all have one shape. The
  first item is the 0-d constant 1, so the call returns only for a 0-d \<open>mod\<close>.
\<close>

definition jnp_array_1 :: "'n::one array \<Rightarrow> error + 'n list" where
  "jnp_array_1 modl = (case modl of Scalar m \<Rightarrow> Inr [1, m] | _ \<Rightarrow> Inl ShapeError)"

text \<open>\<open>a @ b\<close> on two 1-d arrays is their inner product; the lengths must agree.\<close>

definition matmul_vv :: "real list \<Rightarrow> real list \<Rightarrow> error + real array" where
  "matmul_vv a b = (if length a = length b then Inr (Scalar (dot a b)) else Inl ShapeError)"

text \<open>The function with its arithmetic read as exact, over the reals.\<close>

definition mean_function :: "(real, 'a) params_scheme \<Rightarrow> real array \<Rightarrow> error + real array" where
  "mean_function p X =
     (let modl = map_array exp
            (map_array (\<lambda>u. - 0.5 * u)
               (map_array (\<lambda>u. u ^ 2)
                  (map_array (\<lambda>u. u / exp (log_width p))
                     (map_array (\<lambda>x. x - loc p) X))))
      in case jnp_array_1 modl of
           Inl e \<Rightarrow> Inl e
         | Inr beta \<Rightarrow> matmul_vv (amps p) beta)"

text \<open>
  The function as the code runs it, operation by operation in float64. \<open>jnp.square\<close> is the
  product of a number with itself. The inner product adds the rounded products of the
  entries from the first on; for the two entries here that is one addition. A processor
  that fuses a product with the addition rounds once less.
\<close>

definition f64_dot :: "f64 list \<Rightarrow> f64 list \<Rightarrow> f64" where
  "f64_dot xs ys =
     (case map2 f64_mul xs ys of [] \<Rightarrow> Fin 0 | p # ps \<Rightarrow> foldl f64_add p ps)"

definition matmul_vv_f64 :: "f64 list \<Rightarrow> f64 list \<Rightarrow> error + f64 array" where
  "matmul_vv_f64 a b =
     (if length a = length b then Inr (Scalar (f64_dot a b)) else Inl ShapeError)"

definition mean_function_f64 ::
    "(f64, 'a) params_scheme \<Rightarrow> f64 array \<Rightarrow> error + f64 array" where
  "mean_function_f64 p X =
     (let modl = map_array f64_exp
            (map_array (f64_mul (Fin (- (1 / 2))))
               (map_array (\<lambda>u. f64_mul u u)
                  (map_array (\<lambda>u. f64_div u (f64_exp (log_width p)))
                     (map_array (\<lambda>x. f64_sub x (loc p)) X))))
      in case jnp_array_1 modl of
           Inl e \<Rightarrow> Inl e
         | Inr beta \<Rightarrow> matmul_vv_f64 (amps p) beta)"

section \<open>Custom quasiseparable kernels\<close>

text \<open>
  The quasiseparable tutorial defines two kernel classes on top of the library's
  \<open>tinygp.kernels.quasisep.Wrapper\<close>, a dataclass with the one field \<open>kernel\<close>, the wrapped
  kernel. The wrapped kernel belongs to the library; the class \<open>Multiband\<close> reaches it
  through its method \<open>observation_model(t)\<close>, a 1-d array. Whatever else a library kernel
  holds stays in the record scheme. The type of the time coordinate and the type of the
  numbers are left open; the numbers need a product, which is the float64 product in the
  code and the exact product over the reals.
\<close>

record ('t, 'n) quasisep =
  observation_model :: "'t \<Rightarrow> 'n list"

record ('t, 'n, 'z) wrapper =
  kernel :: "('t, 'n, 'z) quasisep_scheme"


text \<open>
  \<^verbatim>\<open>
  @tinygp.helpers.dataclass
  class Multiband(tinygp.kernels.quasisep.Wrapper):
      amplitudes: jnp.ndarray

      def coord_to_sortable(self, X):
          return X[0]

      def observation_model(self, X):
          return self.amplitudes[X[1]] * self.kernel.observation_model(X[0])
  \<close>
  A coordinate \<open>X\<close> is the pair of a time and a band index.
\<close>

record ('t, 'n, 'z) multiband = "('t, 'n, 'z) wrapper" +
  amplitudes :: "'n list"




section \<open>The banded observation model\<close>

text \<open>
  \<^verbatim>\<open>
  bandwidth = max(Counter(calib_id).values()) - 1
  off_diags = np.zeros((nt, bandwidth))
  for j in range(bandwidth):
      m = calib_id[: nt - j - 1] == calib_id[j + 1 :]
      off_diags[: nt - j - 1, j][m] = caliberr[calib_id[: nt - j - 1][m]] ** 2
  \<close>
  The cell reads three globals: the number of observations \<open>nt\<close>, the integer array
  \<open>calib_id\<close> with the calibration block of each observation, and the array \<open>caliberr\<close> with
  the calibration error of each block. The numpy operations are written out one by one,
  each with the exception it raises.
\<close>

text \<open>\<open>max\<close> of a sequence; the empty sequence has none.\<close>

definition py_max :: "nat list \<Rightarrow> error + nat" where
  "py_max xs = (case xs of [] \<Rightarrow> Inl ValueError | x # ys \<Rightarrow> Inr (fold max ys x))"

text \<open>
  \<open>Counter(calib_id).values()\<close> holds, for each distinct block, the number of its
  observations. Each count is at least one, so the subtraction stays in the naturals.
\<close>

definition bandwidth_of :: "int list \<Rightarrow> error + nat" where
  "bandwidth_of calib_id =
     (case py_max (map (count_list calib_id) (remdups calib_id)) of
        Inl e \<Rightarrow> Inl e
      | Inr c \<Rightarrow> Inr (c - 1))"

text \<open>The slices \<open>xs[:k]\<close> and \<open>xs[k:]\<close>; a negative bound counts from the end.\<close>

definition slice_to :: "int \<Rightarrow> 'a list \<Rightarrow> 'a list" where
  "slice_to k xs = take (nat (if k < 0 then int (length xs) + k else k)) xs"

definition slice_from :: "int \<Rightarrow> 'a list \<Rightarrow> 'a list" where
  "slice_from k xs = drop (nat (if k < 0 then int (length xs) + k else k)) xs"

text \<open>
  \<open>a == b\<close> on two 1-d arrays compares entry by entry, a length-1 array being broadcast;
  other unequal lengths do not compare elementwise.
\<close>

definition np_equal :: "int list \<Rightarrow> int list \<Rightarrow> error + bool list" where
  "np_equal a b =
     (if length a = length b then Inr (map2 (=) a b)
      else if length a = 1 then Inr (map (\<lambda>y. hd a = y) b)
      else if length b = 1 then Inr (map (\<lambda>x. x = hd b) a)
      else Inl ShapeError)"

text \<open>\<open>xs[m]\<close> with a boolean mask \<open>m\<close>, which must be as long as \<open>xs\<close>.\<close>

definition mask_select :: "'a list \<Rightarrow> bool list \<Rightarrow> error + 'a list" where
  "mask_select xs m =
     (if length m = length xs then Inr (map fst (filter snd (zip xs m))) else Inl IndexError)"

text \<open>
  \<open>xs[i]\<close> on a numpy array: a negative index counts from the end, an index out of range
  raises. \<open>xs[ids]\<close> with an integer array reads every index in turn.
\<close>

definition np_getitem :: "real list \<Rightarrow> int \<Rightarrow> error + real" where
  "np_getitem xs i =
     (let n = int (length xs); j = (if i < 0 then i + n else i)
      in if 0 \<le> j \<and> j < n then Inr (xs ! nat j) else Inl IndexError)"

fun np_take :: "real list \<Rightarrow> int list \<Rightarrow> error + real list" where
  "np_take xs [] = Inr []"
| "np_take xs (i # ids) =
     (case np_getitem xs i of
        Inl e \<Rightarrow> Inl e
      | Inr v \<Rightarrow> (case np_take xs ids of Inl e \<Rightarrow> Inl e | Inr vs \<Rightarrow> Inr (v # vs)))"

text \<open>
  \<open>view[m] = vals\<close>: the values go, in order, to the positions where the mask holds. The mask
  must be as long as the view, and there must be one value for each selected position, or a
  single value for all of them.
\<close>

fun mask_put :: "real list \<Rightarrow> bool list \<Rightarrow> real list \<Rightarrow> real list" where
  "mask_put (x # xs) (True # m) (v # vs) = v # mask_put xs m vs"
| "mask_put (x # xs) (False # m) vs = x # mask_put xs m vs"
| "mask_put xs m vs = xs"

definition mask_assign :: "real list \<Rightarrow> bool list \<Rightarrow> real list \<Rightarrow> error + real list" where
  "mask_assign view m vals =
     (if length m \<noteq> length view then Inl IndexError
      else if length vals = length (filter id m) then Inr (mask_put view m vals)
      else if length vals = 1 then Inr (mask_put view m (replicate (length m) (hd vals)))
      else Inl ValueError)"

text \<open>
  \<open>off_diags[:k, j]\<close> is a view of column \<open>j\<close> in the first rows of the matrix: reading it
  takes the column, and an assignment through it lands in the matrix. In the loop \<open>j\<close> is
  below the number of columns.
\<close>

definition column_view :: "int \<Rightarrow> nat \<Rightarrow> real list list \<Rightarrow> real list" where
  "column_view k j rows = map (\<lambda>row. row ! j) (slice_to k rows)"

definition column_store :: "int \<Rightarrow> nat \<Rightarrow> real list \<Rightarrow> real list list \<Rightarrow> real list list" where
  "column_store k j col rows =
     map2 (\<lambda>row v. row[j := v]) (slice_to k rows) col @ drop (length (slice_to k rows)) rows"

text \<open>One turn of the loop, for the offset \<open>j\<close>.\<close>

definition band_step ::
    "nat \<Rightarrow> int list \<Rightarrow> real list \<Rightarrow> nat \<Rightarrow> real list list \<Rightarrow> error + real list list" where
  "band_step nt calib_id caliberr j off_diags =
     (let k = int nt - int j - 1
      in case np_equal (slice_to k calib_id) (slice_from (int j + 1) calib_id) of
           Inl e \<Rightarrow> Inl e
         | Inr m \<Rightarrow>
             (case mask_select (slice_to k calib_id) m of
                Inl e \<Rightarrow> Inl e
              | Inr ids \<Rightarrow>
                  (case np_take caliberr ids of
                     Inl e \<Rightarrow> Inl e
                   | Inr errs \<Rightarrow>
                       (case mask_assign (column_view k j off_diags) m (map (\<lambda>x. x ^ 2) errs) of
                          Inl e \<Rightarrow> Inl e
                        | Inr col \<Rightarrow> Inr (column_store k j col off_diags)))))"

fun band_loop ::
    "nat \<Rightarrow> int list \<Rightarrow> real list \<Rightarrow> nat list \<Rightarrow> real list list \<Rightarrow> error + real list list" where
  "band_loop nt calib_id caliberr [] off_diags = Inr off_diags"
| "band_loop nt calib_id caliberr (j # js) off_diags =
     (case band_step nt calib_id caliberr j off_diags of
        Inl e \<Rightarrow> Inl e
      | Inr off_diags' \<Rightarrow> band_loop nt calib_id caliberr js off_diags')"

definition build_off_diags :: "nat \<Rightarrow> int list \<Rightarrow> real list \<Rightarrow> error + real list list" where
  "build_off_diags nt calib_id caliberr =
     (case bandwidth_of calib_id of
        Inl e \<Rightarrow> Inl e
      | Inr bandwidth \<Rightarrow>
          band_loop nt calib_id caliberr [0 ..< bandwidth]
            (replicate nt (replicate bandwidth 0)))"

section \<open>The news workflow\<close>

text \<open>
  The file \<open>.github/workflows/news.yml\<close> is data: the YAML document below, key by key and
  in the order of the file. A literal block scalar (\<open>run: |\<close>) is the list of its lines.
  \<^verbatim>\<open>
  name: News
  on:
    pull_request:
      paths-ignore:
        - ".pre-commit-config.yaml"
  jobs:
    news:
      runs-on: ubuntu-latest
      steps:
        - uses: actions/checkout@v2
          with:
            fetch-depth: 0
        - name: Setup Python
          uses: actions/setup-python@v2
          with:
            python-version: "3.9"
        - name: Install dependencies
          run: |
            python -m pip install -U pip
            # FIXME: using github towncrier until next release
            python -m pip install https://github.com/twisted/towncrier/archive/6b1527b6bf2cbb293ef411ac4f300bd50a5c98ae.zip
        - name: Check for news
          run: python -m towncrier check --compare-with origin/main
  \<close>
\<close>

datatype yaml =
    Str string
  | Num int
  | Block "string list"
  | Seq "yaml list"
  | Map "(string \<times> yaml) list"

definition news_workflow :: yaml where
  "news_workflow =
     Map [(''name'', Str ''News''),
          (''on'', Map [(''pull_request'',
                         Map [(''paths-ignore'', Seq [Str ''.pre-commit-config.yaml''])])]),
          (''jobs'', Map [(''news'',
             Map [(''runs-on'', Str ''ubuntu-latest''),
                  (''steps'', Seq [
                     Map [(''uses'', Str ''actions/checkout@v2''),
                          (''with'', Map [(''fetch-depth'', Num 0)])],
                     Map [(''name'', Str ''Setup Python''),
                          (''uses'', Str ''actions/setup-python@v2''),
                          (''with'', Map [(''python-version'', Str ''3.9'')])],
                     Map [(''name'', Str ''Install dependencies''),
                          (''run'', Block [
                             ''python -m pip install -U pip'',
                             ''# FIXME: using github towncrier until next release'',
                             ''python -m pip install https://github.com/twisted/towncrier/archive/6b1527b6bf2cbb293ef411ac4f300bd50a5c98ae.zip''])],
                     Map [(''name'', Str ''Check for news''),
                          (''run'', Str ''python -m towncrier check --compare-with origin/main'')]])])])]"

text \<open>Reading the document: the value at a key of a mapping, and the keys of a mapping.\<close>

definition lookup :: "string \<Rightarrow> yaml \<Rightarrow> yaml option" where
  "lookup k y = (case y of Map kvs \<Rightarrow> map_of kvs k | _ \<Rightarrow> None)"

definition keys :: "yaml \<Rightarrow> string list" where
  "keys y = (case y of Map kvs \<Rightarrow> map fst kvs | _ \<Rightarrow> [])"

definition items :: "yaml option \<Rightarrow> yaml list" where
  "items y = (case y of Some (Seq ys) \<Rightarrow> ys | _ \<Rightarrow> [])"

definition strings :: "yaml list \<Rightarrow> string list" where
  "strings ys = concat (map (\<lambda>y. case y of Str s \<Rightarrow> [s] | _ \<Rightarrow> []) ys)"

text \<open>
  What the workflow runner makes of the document. The steps of a job run in the order of
  the \<open>steps\<close> sequence. The commands of a \<open>run\<close> script are its lines, without the blank
  lines and the shell comments.
\<close>

definition workflow_job :: "string \<Rightarrow> yaml \<Rightarrow> yaml option" where
  "workflow_job job doc = Option.bind (lookup ''jobs'' doc) (lookup job)"

definition job_steps :: "string \<Rightarrow> yaml \<Rightarrow> yaml list" where
  "job_steps job doc = items (Option.bind (workflow_job job doc) (lookup ''steps''))"

definition is_comment :: "string \<Rightarrow> bool" where
  "is_comment l = (case dropWhile (\<lambda>c. c = CHR '' '') l of [] \<Rightarrow> True | c # _ \<Rightarrow> c = CHR ''#'')"

definition commands :: "yaml \<Rightarrow> string list" where
  "commands step =
     (case lookup ''run'' step of
        Some (Str l) \<Rightarrow> [l]
      | Some (Block ls) \<Rightarrow> filter (\<lambda>l. \<not> is_comment l) ls
      | _ \<Rightarrow> [])"

definition step_input :: "string \<Rightarrow> yaml \<Rightarrow> yaml option" where
  "step_input k step = Option.bind (lookup ''with'' step) (lookup k)"

text \<open>
  The archive of one commit of a repository on the hosting site, and what a commit
  identifier looks like: forty hexadecimal digits.
\<close>

definition archive_url :: "string \<Rightarrow> string \<Rightarrow> string" where
  "archive_url repo commit = ''https://github.com/'' @ repo @ ''/archive/'' @ commit @ ''.zip''"

definition is_commit_id :: "string \<Rightarrow> bool" where
  "is_commit_id c \<longleftrightarrow> length c = 40 \<and> list_all (\<lambda>x. x \<in> set ''0123456789abcdef'') c"

text \<open>
  Triggers. The keys under \<open>on\<close> are the events that start the workflow. For an event with a
  \<open>paths-ignore\<close> filter the platform's rule is: the workflow does not run when every changed
  path matches one of the patterns, and runs when some changed path matches none. How a
  pattern matches a path is the platform's glob matching, a parameter here.
\<close>

record event =
  event_name :: string
  changed_paths :: "string list"

definition triggering_events :: "yaml \<Rightarrow> string list" where
  "triggering_events doc = (case lookup ''on'' doc of Some y \<Rightarrow> keys y | None \<Rightarrow> [])"

definition triggers :: "(string \<Rightarrow> string \<Rightarrow> bool) \<Rightarrow> yaml \<Rightarrow> event \<Rightarrow> bool" where
  "triggers matches doc ev =
     (case Option.bind (lookup ''on'' doc) (lookup (event_name ev)) of
        None \<Rightarrow> False
      | Some filters \<Rightarrow>
          (case lookup ''paths-ignore'' filters of
             None \<Rightarrow> True
           | Some pats \<Rightarrow>
               \<not> list_all (\<lambda>p. list_ex (\<lambda>pat. matches pat p) (strings (items (Some pats))))
                    (changed_paths ev)))"

section \<open>The statements of the notebooks\<close>

text \<open>
  Which constructs the tutorials contain is read off the outline of their code: every code
  cell of every notebook is given with its tags and the list of its statements, in order, a
  compound statement holding the statements of its blocks. A simple statement keeps its kind
  only; an import keeps the modules it names, a line magic of the notebook shell
  (\<open>%pip ...\<close>) its text, a function its name, a class its name and base classes, and an
  exception handler the exception type it catches. Decorators are left out. The notebooks
  have no other kind of statement: no \<open>if\<close>, \<open>while\<close>, \<open>with\<close>, \<open>raise\<close> or \<open>assert\<close>, and no \<open>try\<close>
  with an \<open>else\<close> or \<open>finally\<close> block. Each notebook ends with an empty code cell.

  The cells carry two tags. \<open>hide-cell\<close> folds a cell in the rendered page.
  \<open>raises-exception\<close> tells the program that runs the notebook that the cell may raise: the
  exception is kept as the output of the cell and the run goes on with the next cell. No
  cell has other metadata, and no markdown cell has a tag.
\<close>

datatype stmt =
    Import "string list"
  | ImportFrom string
  | Magic string
  | Assign
  | AugAssign
  | AnnAssign
  | Expr
  | Return
  | FunctionDef string "stmt list"
  | ClassDef string "string list" "stmt list"
  | For "stmt list"
  | Try "stmt list" "(string \<times> stmt list) list"

datatype cell = Cell (cell_tags: "string list") (cell_body: "stmt list")

text \<open>The code cells of the mean-function tutorial (first notebook of the unnamed part 0).\<close>

definition means_notebook :: "cell list" where
  "means_notebook =
    [Cell [''hide-cell'']
       [Try [Import [''tinygp'']] [(''ImportError'', [Magic ''pip install -q tinygp''])],
        Try [Import [''jaxopt'']] [(''ImportError'', [Magic ''pip install -q jaxopt''])]],
     Cell [] [ImportFrom ''functools'', Import [''numpy''], Import [''matplotlib.pyplot''],
        Import [''jax''], Import [''jax.numpy''], Expr,
        FunctionDef ''mean_function'' [Assign, Assign, Return], Assign, Assign, Assign,
        Expr, Expr, Expr, Assign],
     Cell [''raises-exception''] [Assign],
     Cell [] [Assign],
     Cell [] [Assign, Assign, Assign, AugAssign, AugAssign, Expr, Expr, Expr, Assign],
     Cell [] [ImportFrom ''tinygp'', FunctionDef ''build_gp'' [Assign, Return],
        FunctionDef ''loss'' [Assign, Return], Assign, Expr],
     Cell [] [Import [''jaxopt''], Assign, Assign, Expr],
     Cell [] [Assign, Assign, Assign, Assign, Expr, Expr, Expr, Expr, Expr, Expr, Assign],
     Cell [] [Assign, Assign, Assign, Assign, Expr, Expr, Expr, Expr, Expr, Expr, Expr, Assign],
     Cell [] [Assign, FunctionDef ''build_gp_v2'' [Assign, Return],
        FunctionDef ''loss_v2'' [Assign, Return], Expr],
     Cell [] []]"

text \<open>The code cells of the introductory tutorial (second notebook of the unnamed part 0).\<close>

definition intro_notebook :: "cell list" where
  "intro_notebook =
    [Cell [''hide-cell'']
       [Try [Import [''tinygp'']] [(''ImportError'', [Magic ''pip install -q tinygp''])]],
     Cell [] [Import [''jax''], Expr],
     Cell [] [ImportFrom ''tinygp'', Assign],
     Cell [] [Import [''numpy''], Import [''matplotlib.pyplot''],
        FunctionDef ''plot_kernel'' [Assign, Expr, Expr, Expr], Expr],
     Cell [] [Expr, Assign, Expr, Assign, Expr, Assign, Expr, Assign],
     Cell [] [ImportFrom ''tinygp'', Assign, Assign],
     Cell [] [Assign, Expr, Expr, Expr, Assign],
     Cell [] [Assign, Assign, Assign, Expr, Expr, Expr, Assign],
     Cell []
       [Assign, Assign, FunctionDef ''mean_function'' [Return], Assign, Assign, Assign,
        Assign, Expr, Expr, Expr, Assign, Expr, Expr, Expr, Expr, Assign],
     Cell [] [Assign, Assign, Assign, Assign, Assign, Expr],
     Cell [] [Assign, Expr],
     Cell [] [Expr],
     Cell []
       [Assign, Assign, Assign, Assign, Expr, Expr, Expr, Assign, Expr, Expr, Expr, Expr,
        Expr, Expr, Assign],
     Cell [] [Import [''jax.numpy''], FunctionDef ''build_gp'' [Assign, Return],
        FunctionDef ''loss'' [Assign, Return], Assign, Expr],
     Cell [] []]"

text \<open>The code cells of the likelihoods tutorial (third notebook of the unnamed part 0).\<close>

definition likelihoods_notebook :: "cell list" where
  "likelihoods_notebook =
    [Cell [''hide-cell'']
       [Try [Import [''tinygp'']] [(''ImportError'', [Magic ''pip install -q tinygp''])],
        Try [Import [''numpyro'']] [(''ImportError'', [Magic ''pip uninstall -y jax jaxlib'',
              Magic ''pip install -q numpyro jax jaxlib''])],
        Try [Import [''arviz'']] [(''ImportError'', [Magic ''pip install arviz''])]],
     Cell []
       [Import [''numpy''], Import [''matplotlib.pyplot''], Assign, Assign, Assign, Assign,
        Expr, Expr, Expr, Expr, Assign],
     Cell [] [Import [''jax''], Import [''jax.numpy''], Import [''numpyro''],
        Import [''numpyro.distributions''], ImportFrom ''tinygp'', Expr,
        FunctionDef ''model'' [Assign, Assign, Assign, Assign, Assign, Assign, Expr],
        Assign, Assign, Assign, Expr, Assign],
     Cell [] [Assign, Expr, Expr, Expr, Expr, Expr, Expr, Expr, Assign],
     Cell [] [FunctionDef ''model'' [Assign, Assign, Assign, Assign, Assign, Assign, Expr],
        FunctionDef ''guide'' [Assign, Assign, Expr], Assign, Assign, Assign],
     Cell [] [Assign, Assign, Expr, Expr, Expr, Expr, Expr, Expr, Expr, Assign],
     Cell [] []]"

text \<open>The code cells of the transforms tutorial (the unnamed part 1).\<close>

definition transforms_notebook :: "cell list" where
  "transforms_notebook =
    [Cell [''hide-cell'']
       [Try [Import [''tinygp'']] [(''ImportError'', [Magic ''pip install -q tinygp''])],
        Try [Import [''flax'']] [(''ImportError'', [Magic ''pip install -q flax''])],
        Try [Import [''optax'']] [(''ImportError'', [Magic ''pip install -q optax''])]],
     Cell []
       [Import [''numpy''], Import [''matplotlib.pyplot''], Assign, Assign, Assign, Assign,
        Assign, Expr, Expr, Expr, Expr, Expr, Expr, Assign],
     Cell [] [Import [''jax''], Import [''optax''], Import [''jax.numpy''],
        Import [''flax.linen''], ImportFrom ''flax.linen.initializers'',
        ImportFrom ''tinygp'',
        ClassDef ''Transformer'' [''nn.Module'']
            [FunctionDef ''__call__'' [Assign, Assign, Assign, Assign, Assign, Return]],
        ClassDef ''GPLoss'' [''nn.Module'']
            [FunctionDef ''__call__'' [Assign, Assign, Assign, Assign, Assign, Assign,
                  Assign, Assign, Return]],
        FunctionDef ''loss'' [Return], Assign, Assign, Assign, Assign, Assign,
        For [Assign, Assign, Assign], Expr, Assign, Expr, Expr, Expr, Expr, Expr, Expr,
        Expr, Expr, Assign],
     Cell [] []]"

text \<open>The code cells of docs/tutorials/quasisep-custom.ipynb.\<close>

definition quasisep_custom_notebook :: "cell list" where
  "quasisep_custom_notebook =
    [Cell [''hide-cell'']
       [Try [Import [''tinygp'']] [(''ImportError'', [Magic ''pip install -q tinygp''])],
        Try [Import [''jaxopt'']] [(''ImportError'', [Magic ''pip install -q jaxopt''])]],
     Cell []
       [Import [''jax''], Import [''jax.numpy''], Import [''tinygp''], Expr,
        ClassDef ''Multiband'' [''tinygp.kernels.quasisep.Wrapper'']
            [AnnAssign, FunctionDef ''coord_to_sortable'' [Return],
             FunctionDef ''observation_model'' [Return]]],
     Cell [''hide-cell'']
       [FunctionDef ''plot_multiband_sample'' [Assign, Assign, For [Expr, Expr], Expr, Expr,
             Expr, Expr, Expr, Expr]],
     Cell []
       [Import [''numpy''], Import [''matplotlib.pyplot''], Assign, Assign, Assign, Assign,
        Assign, Expr],
     Cell [] [Assign, AugAssign, Expr],
     Cell [] [Assign, Assign, Assign, Assign, Expr],
     Cell [] [ClassDef ''Latent'' [''tinygp.kernels.quasisep.Wrapper'']
            [AnnAssign, AnnAssign, FunctionDef ''coord_to_sortable'' [Return],
             FunctionDef ''observation_model'' [Assign, Assign, Assign, Assign, Assign,
                   Return]],
        Assign, Assign, Assign, Assign, Assign, Assign, Assign, Assign, Assign, Assign,
        Assign, Assign, Expr, Expr, Expr, Expr, Expr, Expr, Expr, Expr, Expr, Assign],
     Cell [''hide-cell'']
       [FunctionDef ''plot_latent_samples'' [Assign, Expr, Expr, Expr, Expr, Expr, Expr,
             Expr, Expr, Expr, Assign]],
     Cell [] [Expr, Expr, Expr, Assign],
     Cell [] [Expr, Expr, Expr, Assign],
     Cell [] [Import [''jaxopt''], FunctionDef ''build_gp'' [Assign, Assign, Return],
        FunctionDef ''loss'' [Assign, Return], Assign, Expr, Assign, Assign, Expr],
     Cell []
       [Assign, Assign, Assign, Expr, Expr, Expr, Expr, For [Assign, Assign, Expr], Expr,
        Expr, Expr, Expr, Expr, Assign],
     Cell [''hide-cell'']
       [Assign, Assign, Assign, Assign, Assign, Assign, Assign, Assign, Assign, Assign,
        Assign, Assign, Assign, Assign, Assign, Assign, Assign, Assign, AugAssign],
     Cell [] [Assign, Expr, Expr, Expr, Expr, Assign],
     Cell []
       [ImportFrom ''collections'', Assign, Assign, For [Assign, Assign], Assign, Expr,
        Expr, Expr, Assign],
     Cell [] [Import [''jaxopt''], FunctionDef ''build_gp'' [Assign, Return],
        FunctionDef ''loss'' [Assign, Return], Assign, Expr, Assign, Assign, Expr, Assign,
        Assign, Assign, Assign, Expr, Expr, Expr, Expr, Expr, Expr, Assign],
     Cell [] []]"

definition notebooks :: "cell list list" where
  "notebooks = [means_notebook, intro_notebook, likelihoods_notebook, transforms_notebook,
     quasisep_custom_notebook]"

text \<open>The exception handlers anywhere inside a statement, and those inside a loop.\<close>

fun handlers :: "stmt \<Rightarrow> (string \<times> stmt list) list" where
  "handlers (FunctionDef f body) = concat (map handlers body)"
| "handlers (ClassDef c bases body) = concat (map handlers body)"
| "handlers (For body) = concat (map handlers body)"
| "handlers (Try body hs) =
     hs @ concat (map handlers body) @ concat (map (\<lambda>h. concat (map handlers (snd h))) hs)"
| "handlers s = []"

fun loop_handlers :: "stmt \<Rightarrow> (string \<times> stmt list) list" where
  "loop_handlers (FunctionDef f body) = concat (map loop_handlers body)"
| "loop_handlers (ClassDef c bases body) = concat (map loop_handlers body)"
| "loop_handlers (For body) = concat (map handlers body)"
| "loop_handlers (Try body hs) =
     concat (map loop_handlers body) @ concat (map (\<lambda>h. concat (map loop_handlers (snd h))) hs)"
| "loop_handlers s = []"

definition handler_free :: "stmt \<Rightarrow> bool" where
  "handler_free s \<longleftrightarrow> handlers s = []"

text \<open>
  A cell handles no error when no statement of it has an exception handler and the cell is
  not tagged to have its exception tolerated.
\<close>

definition tolerates_exception :: "cell \<Rightarrow> bool" where
  "tolerates_exception c \<longleftrightarrow> ''raises-exception'' \<in> set (cell_tags c)"

definition handles_no_error :: "cell \<Rightarrow> bool" where
  "handles_no_error c \<longleftrightarrow> list_all handler_free (cell_body c) \<and> \<not> tolerates_exception c"

text \<open>The positions, in a notebook, of the cells that satisfy a condition.\<close>

definition cells_where :: "(cell \<Rightarrow> bool) \<Rightarrow> cell list \<Rightarrow> nat list" where
  "cells_where P nb = filter (\<lambda>i. P (nb ! i)) [0 ..< length nb]"

text \<open>
  An import guard: \<open>try: import m\<close> with the single handler \<open>except ImportError:\<close>, whose block
  is made of \<open>%pip\<close> magics only. The handler does not import again.
\<close>

fun is_pip_magic :: "stmt \<Rightarrow> bool" where
  "is_pip_magic (Magic c) = (take 4 c = ''pip '')"
| "is_pip_magic s = False"

fun import_guard :: "stmt \<Rightarrow> bool" where
  "import_guard (Try [Import [m]] [(e, block)]) =
     (e = ''ImportError'' \<and> block \<noteq> [] \<and> list_all is_pip_magic block)"
| "import_guard s = False"

text \<open>
  The classes a statement defines: the name, the base classes and the names of the methods
  of each.
\<close>

fun method_names :: "stmt list \<Rightarrow> string list" where
  "method_names [] = []"
| "method_names (FunctionDef f body # ss) = f # method_names ss"
| "method_names (s # ss) = method_names ss"

fun classes :: "stmt \<Rightarrow> (string \<times> string list \<times> string list) list" where
  "classes (ClassDef c bases body) = (c, bases, method_names body) # concat (map classes body)"
| "classes (FunctionDef f body) = concat (map classes body)"
| "classes (For body) = concat (map classes body)"
| "classes (Try body hs) =
     concat (map classes body) @ concat (map (\<lambda>h. concat (map classes (snd h))) hs)"
| "classes s = []"

definition all_classes :: "(string \<times> string list \<times> string list) list" where
  "all_classes =
     concat (map (\<lambda>nb. concat (map (\<lambda>c. concat (map classes (cell_body c))) nb)) notebooks)"

text \<open>
  A kernel class is a class with a base class from the library's \<open>tinygp.kernels\<close>, named in
  full or through the imported name \<open>kernels\<close>.
\<close>

definition is_kernel_class :: "string \<times> string list \<times> string list \<Rightarrow> bool" where
  "is_kernel_class c =
     list_ex (\<lambda>b. take 15 b = ''tinygp.kernels.'' \<or> take 8 b = ''kernels.'') (fst (snd c))"

text \<open>
  Everything a notebook defines: the name of every function and class at any depth, a
  method or a nested function under the name of what holds it, in the order of the
  definitions.
\<close>

fun defined_names :: "string \<Rightarrow> stmt \<Rightarrow> string list" where
  "defined_names p (FunctionDef f body) =
     (p @ f) # concat (map (defined_names (p @ f @ ''.'')) body)"
| "defined_names p (ClassDef c bases body) =
     (p @ c) # concat (map (defined_names (p @ c @ ''.'')) body)"
| "defined_names p (For body) = concat (map (defined_names p) body)"
| "defined_names p (Try body hs) =
     concat (map (defined_names p) body)
       @ concat (map (\<lambda>h. concat (map (defined_names p) (snd h))) hs)"
| "defined_names p s = []"

definition notebook_definitions :: "cell list \<Rightarrow> string list" where
  "notebook_definitions nb = concat (map (\<lambda>c. concat (map (defined_names []) (cell_body c))) nb)"

text \<open>Whether a statement is, or holds at any depth, a loop.\<close>

fun has_loop :: "stmt \<Rightarrow> bool" where
  "has_loop (For body) = True"
| "has_loop (FunctionDef f body) = list_ex has_loop body"
| "has_loop (ClassDef c bases body) = list_ex has_loop body"
| "has_loop (Try body hs) = (list_ex has_loop body \<or> list_ex (\<lambda>h. list_ex has_loop (snd h)) hs)"
| "has_loop s = False"

definition cell_has_loop :: "cell \<Rightarrow> bool" where
  "cell_has_loop c = list_ex has_loop (cell_body c)"

text \<open>
  The names of the definitions whose body holds a loop at any depth, and the loops that a
  notebook runs at the top level of its cells.
\<close>

fun loop_definitions :: "string \<Rightarrow> stmt \<Rightarrow> string list" where
  "loop_definitions p (FunctionDef f body) =
     (if list_ex has_loop body then [p @ f] else [])
       @ concat (map (loop_definitions (p @ f @ ''.'')) body)"
| "loop_definitions p (ClassDef c bases body) =
     (if list_ex has_loop body then [p @ c] else [])
       @ concat (map (loop_definitions (p @ c @ ''.'')) body)"
| "loop_definitions p (For body) = concat (map (loop_definitions p) body)"
| "loop_definitions p (Try body hs) =
     concat (map (loop_definitions p) body)
       @ concat (map (\<lambda>h. concat (map (loop_definitions p) (snd h))) hs)"
| "loop_definitions p s = []"

definition notebook_loop_definitions :: "cell list \<Rightarrow> string list" where
  "notebook_loop_definitions nb =
     concat (map (\<lambda>c. concat (map (loop_definitions []) (cell_body c))) nb)"

fun is_loop :: "stmt \<Rightarrow> bool" where
  "is_loop (For body) = True"
| "is_loop s = False"

definition top_level_loops :: "cell list \<Rightarrow> stmt list" where
  "top_level_loops nb = concat (map (\<lambda>c. filter is_loop (cell_body c)) nb)"

text \<open>
  The calls inside the definitions. For every notebook, in the order of \<open>notebooks\<close>, and for
  every function, method and class that it defines, in the order of
  \<open>notebook_definitions\<close>: the callee of every call in the body of the definition, in the order
  in which the calls begin in the source. A callee is written as in the source, a dotted
  name, with the arguments left out; \<open>f().g\<close> is the method \<open>g\<close> of the result of a call of
  \<open>f\<close>. A class holds no call outside its methods, and no function is defined inside another.
\<close>

definition function_calls :: "(string \<times> string list) list list" where
  "function_calls =
    [[(''mean_function'',
         [''jnp.exp'', ''jnp.square'', ''jnp.exp'', ''jnp.array'']),
      (''build_gp'',
         [''jnp.exp'', ''kernels.Matern52'', ''jnp.exp'', ''GaussianProcess'', ''jnp.exp'',
          ''partial'']),
      (''loss'',
         [''build_gp'', ''gp.log_probability'']),
      (''build_gp_v2'',
         [''jnp.exp'', ''kernels.Matern52'', ''jnp.exp'', ''GaussianProcess'', ''jnp.exp'']),
      (''loss_v2'',
         [''build_gp_v2'', ''gp.log_probability'', ''vmapped_mean_function''])],
     [(''plot_kernel'',
         [''np.linspace'', ''plt.plot'', ''kernel'', ''plt.xlabel'', ''plt.ylabel'']),
      (''mean_function'',
         [''jax.numpy.sin'']),
      (''build_gp'',
         [''jnp.exp'', ''kernels.ExpSquared'', ''jnp.exp'', ''GaussianProcess'', ''jnp.exp'']),
      (''loss'',
         [''build_gp'', ''gp.log_probability''])],
     [(''model'',
         [''numpyro.sample'', ''dist.Normal'', ''numpyro.sample'', ''dist.HalfNormal'',
          ''numpyro.sample'', ''dist.HalfNormal'', ''kernels.Matern52'',
          ''GaussianProcess'', ''numpyro.sample'', ''gp.numpyro_dist'', ''numpyro.sample'',
          ''dist.Poisson'', ''jnp.exp'']),
      (''model'',
         [''numpyro.param'', ''jnp.zeros'', ''numpyro.param'', ''jnp.ones'',
          ''numpyro.param'', ''jnp.ones'', ''kernels.Matern52'', ''GaussianProcess'',
          ''numpyro.sample'', ''gp.numpyro_dist'', ''numpyro.sample'', ''dist.Poisson'',
          ''jnp.exp'']),
      (''guide'',
         [''numpyro.param'', ''jnp.zeros_like'', ''jnp.log'', ''numpyro.param'',
          ''jnp.ones_like'', ''numpyro.sample'', ''dist.Independent'', ''dist.Normal''])],
     [(''Transformer'', []),
      (''Transformer.__call__'',
         [''nn.Dense()'', ''nn.Dense'', ''nn.relu'', ''nn.Dense()'', ''nn.Dense'',
          ''nn.relu'', ''nn.Dense()'', ''nn.Dense'']),
      (''GPLoss'', []),
      (''GPLoss.__call__'',
         [''self.param'', ''self.param'', ''self.param'', ''jnp.exp'', ''kernels.Matern32'',
          ''jnp.exp'', ''Transformer'', ''transforms.Transform'', ''GaussianProcess'',
          ''jnp.exp'', ''gp.condition'']),
      (''loss'',
         [''model.apply''])],
     [(''Multiband'', []),
      (''Multiband.coord_to_sortable'', []),
      (''Multiband.observation_model'',
         [''self.kernel.observation_model'']),
      (''plot_multiband_sample'',
         [''tinygp.GaussianProcess'', ''gp.sample'', ''jax.random.PRNGKey'', ''np.unique'',
          ''plt.axhline'', ''plt.plot'', ''plt.xlim'', ''plt.ylim'', ''plt.yticks'',
          ''plt.xlabel'', ''plt.ylabel'', ''plt.legend'']),
      (''Latent'', []),
      (''Latent.coord_to_sortable'', []),
      (''Latent.observation_model'',
         [''self.kernel.design_matrix'', ''self.kernel.observation_model'', ''jnp.asarray'',
          ''jnp.asarray'']),
      (''plot_latent_samples'',
         [''tinygp.GaussianProcess().sample'', ''tinygp.GaussianProcess'', ''Latent'',
          ''jax.random.PRNGKey'', ''plt.figure'', ''plt.axhline'', ''plt.axhline'',
          ''plt.plot'', ''plt.plot'', ''plt.xlim'', ''plt.ylim'', ''plt.xlabel'',
          ''plt.ylabel'', ''plt.legend'']),
      (''build_gp'',
         [''tinygp.kernels.quasisep.Matern52'', ''jnp.exp'',
          ''tinygp.kernels.quasisep.Cosine'', ''jnp.exp'', ''Latent'',
          ''tinygp.GaussianProcess'', ''jnp.exp'']),
      (''loss'',
         [''build_gp'', ''gp.log_probability'']),
      (''build_gp'',
         [''tinygp.kernels.quasisep.SHO'', ''jnp.exp'', ''jnp.exp'', ''jnp.exp'',
          ''tinygp.GaussianProcess'']),
      (''loss'',
         [''build_gp'', ''gp.log_probability''])]]"


text \<open>
  What a callee names among the definitions of the notebook: inside a method of a class
  \<open>C\<close>, \<open>self.m\<close> is the method \<open>C.m\<close>; any other callee is the name as written. A method
  reached through another object (\<open>gp.sample\<close>, \<open>self.kernel.observation_model\<close>) belongs to the
  class of that object and is not a name of the notebook.
\<close>

definition owner :: "string \<Rightarrow> string" where
  "owner q = rev (dropWhile (\<lambda>ch. ch \<noteq> CHR ''.'') (rev q))"

definition callee :: "string \<Rightarrow> string \<Rightarrow> string" where
  "callee q c = (if take 5 c = ''self.'' then owner q @ drop 5 c else c)"

text \<open>The position of the first definition of a name in a notebook.\<close>

fun first_index :: "string list \<Rightarrow> string \<Rightarrow> nat" where
  "first_index [] x = 0"
| "first_index (y # ys) x = (if x = y then 0 else Suc (first_index ys x))"

text \<open>
  A notebook is free of recursion when every call, inside a definition, of a name that the
  notebook defines goes to a name first defined before the name of the caller: no chain of
  such calls comes back to the name it started from.
\<close>

definition calls_earlier :: "string list \<Rightarrow> string \<times> string list \<Rightarrow> bool" where
  "calls_earlier names d =
     list_all (\<lambda>c. callee (fst d) c \<in> set names
                  \<longrightarrow> first_index names (callee (fst d) c) < first_index names (fst d))
       (snd d)"

definition recursion_free :: "(string \<times> string list) list \<Rightarrow> bool" where
  "recursion_free table = list_all (calls_earlier (map fst table)) table"

section \<open>Properties of the news workflow\<close>

lemma news_steps:
  "job_steps ''news'' news_workflow =
     [Map [(''uses'', Str ''actions/checkout@v2''),
           (''with'', Map [(''fetch-depth'', Num 0)])],
      Map [(''name'', Str ''Setup Python''),
           (''uses'', Str ''actions/setup-python@v2''),
           (''with'', Map [(''python-version'', Str ''3.9'')])],
      Map [(''name'', Str ''Install dependencies''),
           (''run'', Block [
              ''python -m pip install -U pip'',
              ''# FIXME: using github towncrier until next release'',
              ''python -m pip install https://github.com/twisted/towncrier/archive/6b1527b6bf2cbb293ef411ac4f300bd50a5c98ae.zip''])],
      Map [(''name'', Str ''Check for news''),
           (''run'', Str ''python -m towncrier check --compare-with origin/main'')]]"
  by (simp add: job_steps_def workflow_job_def news_workflow_def lookup_def items_def)

text \<open>
  Claim C1. The job \<open>news\<close> has exactly four steps, in this order: the checkout action with
  \<open>fetch-depth\<close> 0, the Python set-up action with the one version 3.9, a script whose pip
  commands end with the installation of towncrier from the archive of one commit, and the
  command \<open>python -m towncrier check --compare-with origin/main\<close>.
\<close>

theorem news_job_steps:
  "length (job_steps ''news'' news_workflow) = 4
   \<and> lookup ''uses'' (job_steps ''news'' news_workflow ! 0) = Some (Str ''actions/checkout@v2'')
   \<and> step_input ''fetch-depth'' (job_steps ''news'' news_workflow ! 0) = Some (Num 0)
   \<and> lookup ''uses'' (job_steps ''news'' news_workflow ! 1) = Some (Str ''actions/setup-python@v2'')
   \<and> step_input ''python-version'' (job_steps ''news'' news_workflow ! 1) = Some (Str ''3.9'')
   \<and> commands (job_steps ''news'' news_workflow ! 2)
       = [''python -m pip install -U pip'',
          ''python -m pip install ''
            @ archive_url ''twisted/towncrier'' ''6b1527b6bf2cbb293ef411ac4f300bd50a5c98ae'']
   \<and> is_commit_id ''6b1527b6bf2cbb293ef411ac4f300bd50a5c98ae''
   \<and> commands (job_steps ''news'' news_workflow ! 3)
       = [''python -m towncrier check --compare-with origin/main'']"
  unfolding news_steps
  by (simp add: lookup_def step_input_def commands_def is_comment_def archive_url_def
      is_commit_id_def)

lemma news_triggers_iff:
  assumes "\<forall>p. matches ''.pre-commit-config.yaml'' p \<longleftrightarrow> p = ''.pre-commit-config.yaml''"
  shows "triggers matches news_workflow ev \<longleftrightarrow>
           event_name ev = ''pull_request''
         \<and> \<not> set (changed_paths ev) \<subseteq> {''.pre-commit-config.yaml''}"
proof -
  have "list_all (\<lambda>p. matches ''.pre-commit-config.yaml'' p) ps
      \<longleftrightarrow> set ps \<subseteq> {''.pre-commit-config.yaml''}" for ps
    using assms by (auto simp: list_all_iff)
  then show ?thesis
    by (simp add: triggers_def news_workflow_def lookup_def items_def strings_def)
qed

text \<open>
  Claim C2. The workflow is triggered by pull request events and by no other event. Where
  the pattern \<open>.pre-commit-config.yaml\<close>, which has no wildcard, matches that path and no
  other, a pull request whose changed paths are all the file \<open>.pre-commit-config.yaml\<close> does
  not trigger the workflow, and every other pull request does.
\<close>

theorem news_triggered_by_pull_requests:
  assumes "\<forall>p. matches ''.pre-commit-config.yaml'' p \<longleftrightarrow> p = ''.pre-commit-config.yaml''"
  shows "triggering_events news_workflow = [''pull_request'']
       \<and> (\<forall>ev. event_name ev \<noteq> ''pull_request'' \<longrightarrow> \<not> triggers matches news_workflow ev)
       \<and> (\<forall>ev. event_name ev = ''pull_request'' \<longrightarrow>
             (triggers matches news_workflow ev
                \<longleftrightarrow> \<not> set (changed_paths ev) \<subseteq> {''.pre-commit-config.yaml''}))"
  using news_triggers_iff [of matches, OF assms]
  by (simp add: triggering_events_def keys_def news_workflow_def lookup_def)

theorem news_triggered_by_pull_requests_witness:
  "triggering_events news_workflow = [''pull_request'']
   \<and> \<not> triggers (=) news_workflow
         \<lparr>event_name = ''push'', changed_paths = [''README.md'']\<rparr>
   \<and> \<not> triggers (=) news_workflow
         \<lparr>event_name = ''pull_request'', changed_paths = [''.pre-commit-config.yaml'']\<rparr>
   \<and> triggers (=) news_workflow
         \<lparr>event_name = ''pull_request'',
          changed_paths = [''.pre-commit-config.yaml'', ''README.md'']\<rparr>"
proof -
  have m: "\<forall>p. ''.pre-commit-config.yaml'' = p \<longleftrightarrow> p = ''.pre-commit-config.yaml''"
    by auto
  note t = news_triggered_by_pull_requests [of "(=)", OF m]
  have a: "\<not> triggers (=) news_workflow
         \<lparr>event_name = ''push'', changed_paths = [''README.md'']\<rparr>"
    using t by simp
  have b: "\<not> triggers (=) news_workflow
         \<lparr>event_name = ''pull_request'', changed_paths = [''.pre-commit-config.yaml'']\<rparr>"
    using t by simp
  have c: "triggers (=) news_workflow
         \<lparr>event_name = ''pull_request'',
          changed_paths = [''.pre-commit-config.yaml'', ''README.md'']\<rparr>"
    using t by simp
  show ?thesis using t a b c by simp
qed

section \<open>Properties of the notebooks' statements\<close>

lemmas notebook_defs = notebooks_def means_notebook_def intro_notebook_def
  likelihoods_notebook_def transforms_notebook_def quasisep_custom_notebook_def

lemma all_classes_eq:
  "all_classes =
     [(''Transformer'', [''nn.Module''], [''__call__'']),
      (''GPLoss'', [''nn.Module''], [''__call__'']),
      (''Multiband'', [''tinygp.kernels.quasisep.Wrapper''],
         [''coord_to_sortable'', ''observation_model'']),
      (''Latent'', [''tinygp.kernels.quasisep.Wrapper''],
         [''coord_to_sortable'', ''observation_model''])]"
  by (simp add: all_classes_def notebook_defs)

lemma import_guards_only:
  "\<forall>nb \<in> set notebooks.
       nb \<noteq> [] \<and> cell_body (hd nb) \<noteq> [] \<and> (\<forall>s \<in> set (cell_body (hd nb)). import_guard s)
     \<and> (\<forall>c \<in> set (tl nb). \<forall>s \<in> set (cell_body c). handlers s = [])
     \<and> (\<forall>c \<in> set nb. \<forall>s \<in> set (cell_body c). loop_handlers s = [])"
  by (simp add: notebook_defs)

lemma tolerated_cells:
  "map (cells_where tolerates_exception) notebooks = [[2], [], [], [], []]"
  by (simp add: notebook_defs cells_where_def tolerates_exception_def upt_rec)

lemma cell_tags_used:
  "\<forall>nb \<in> set notebooks. \<forall>c \<in> set nb.
     set (cell_tags c) \<subseteq> {''hide-cell'', ''raises-exception''}"
  by (simp add: notebook_defs)

lemma news_keys:
  "map_option keys (workflow_job ''news'' news_workflow) = Some [''runs-on'', ''steps'']
   \<and> (\<forall>step \<in> set (job_steps ''news'' news_workflow).
         set (keys step) \<subseteq> {''name'', ''uses'', ''with'', ''run''})"
proof -
  have "\<forall>step \<in> set (job_steps ''news'' news_workflow).
         set (keys step) \<subseteq> {''name'', ''uses'', ''with'', ''run''}"
    unfolding news_steps by (auto simp: keys_def)
  moreover have "map_option keys (workflow_job ''news'' news_workflow)
      = Some [''runs-on'', ''steps'']"
    by (simp add: workflow_job_def news_workflow_def lookup_def keys_def)
  ultimately show ?thesis by blast
qed

text \<open>
  Claim C5, as stated: no code path of the repository contains an error-handling construct,
  no notebook cell defines an exception handler. It fails on the first cell of every
  notebook: the first statement of the mean-function tutorial is a \<open>try\<close> with a handler for
  \<open>ImportError\<close>. It fails also on the third cell of that tutorial, which is tagged
  \<open>raises-exception\<close>.
\<close>

theorem no_error_handling_counterexample:
  "\<not> list_all (list_all handles_no_error) notebooks
   \<and> cell_body (means_notebook ! 0) ! 0
       = Try [Import [''tinygp'']] [(''ImportError'', [Magic ''pip install -q tinygp''])]
   \<and> handlers (cell_body (means_notebook ! 0) ! 0)
       = [(''ImportError'', [Magic ''pip install -q tinygp''])]
   \<and> \<not> handles_no_error (means_notebook ! 0)
   \<and> means_notebook ! 2 = Cell [''raises-exception''] [Assign]
   \<and> \<not> handles_no_error (means_notebook ! 2)"
  by (simp add: notebook_defs handles_no_error_def handler_free_def tolerates_exception_def)

text \<open>
  Claim C5, amended. The only error-handling constructs of the repository are the import
  guards that open each tutorial notebook, and the tag \<open>raises-exception\<close> on one cell. The
  first code cell of every notebook is made of \<open>try\<close> statements around one package import
  each, with a single handler, for \<open>ImportError\<close>, that runs \<open>%pip\<close> magics and does not import
  again. No other cell contains an exception handler, and no loop contains one, so nothing
  is retried. The third code cell of the mean-function tutorial, the call of the mean
  function on a batch, is the one cell tagged \<open>raises-exception\<close>; the only other tag is
  \<open>hide-cell\<close>. In the workflow the job has the keys \<open>runs-on\<close> and \<open>steps\<close> and its steps have
  no key besides \<open>name\<close>, \<open>uses\<close>, \<open>with\<close> and \<open>run\<close>, so nothing there has a condition or
  continues on error.
\<close>

theorem error_handling_is_import_guards:
  "(\<forall>nb \<in> set notebooks.
       nb \<noteq> [] \<and> cell_body (hd nb) \<noteq> [] \<and> (\<forall>s \<in> set (cell_body (hd nb)). import_guard s)
     \<and> (\<forall>c \<in> set (tl nb). \<forall>s \<in> set (cell_body c). handlers s = [])
     \<and> (\<forall>c \<in> set nb. \<forall>s \<in> set (cell_body c). loop_handlers s = []))
   \<and> map (cells_where tolerates_exception) notebooks = [[2], [], [], [], []]
   \<and> means_notebook ! 2 = Cell [''raises-exception''] [Assign]
   \<and> (\<forall>nb \<in> set notebooks. \<forall>c \<in> set nb.
         set (cell_tags c) \<subseteq> {''hide-cell'', ''raises-exception''})
   \<and> map_option keys (workflow_job ''news'' news_workflow) = Some [''runs-on'', ''steps'']
   \<and> (\<forall>step \<in> set (job_steps ''news'' news_workflow).
         set (keys step) \<subseteq> {''name'', ''uses'', ''with'', ''run''})"
proof -
  have "means_notebook ! 2 = Cell [''raises-exception''] [Assign]"
    by (simp add: means_notebook_def)
  then show ?thesis
    using import_guards_only tolerated_cells cell_tags_used news_keys by blast
qed

theorem error_handling_is_import_guards_witness:
  "likelihoods_notebook \<in> set notebooks
   \<and> import_guard (cell_body (hd likelihoods_notebook) ! 1)
   \<and> cell_body (hd likelihoods_notebook) ! 1
       = Try [Import [''numpyro'']]
           [(''ImportError'', [Magic ''pip uninstall -y jax jaxlib'',
                               Magic ''pip install -q numpyro jax jaxlib''])]
   \<and> cell_body (likelihoods_notebook ! 2) ! 6
       = FunctionDef ''model'' [Assign, Assign, Assign, Assign, Assign, Assign, Expr]
   \<and> handlers (cell_body (likelihoods_notebook ! 2) ! 6) = []
   \<and> loop_handlers (cell_body (likelihoods_notebook ! 2) ! 6) = []
   \<and> cell_tags (likelihoods_notebook ! 2) = []
   \<and> job_steps ''news'' news_workflow ! 3
       = Map [(''name'', Str ''Check for news''),
              (''run'', Str ''python -m towncrier check --compare-with origin/main'')]
   \<and> set (keys (job_steps ''news'' news_workflow ! 3))
       \<subseteq> {''name'', ''uses'', ''with'', ''run''}"
proof -
  note t = error_handling_is_import_guards
  have nb: "likelihoods_notebook \<in> set notebooks"
    by (simp add: notebooks_def)
  have g: "cell_body (hd likelihoods_notebook) ! 1 \<in> set (cell_body (hd likelihoods_notebook))"
    by (simp add: likelihoods_notebook_def)
  have c: "likelihoods_notebook ! 2 \<in> set (tl likelihoods_notebook)"
    and c': "likelihoods_notebook ! 2 \<in> set likelihoods_notebook"
    and s: "cell_body (likelihoods_notebook ! 2) ! 6 \<in> set (cell_body (likelihoods_notebook ! 2))"
    by (simp_all add: likelihoods_notebook_def)
  have st: "job_steps ''news'' news_workflow ! 3 \<in> set (job_steps ''news'' news_workflow)"
    unfolding news_steps by simp
  have "import_guard (cell_body (hd likelihoods_notebook) ! 1)"
    using t nb g by blast
  moreover have "handlers (cell_body (likelihoods_notebook ! 2) ! 6) = []"
    using t nb c s by blast
  moreover have "loop_handlers (cell_body (likelihoods_notebook ! 2) ! 6) = []"
    using t nb c' s by blast
  moreover have "set (keys (job_steps ''news'' news_workflow ! 3))
       \<subseteq> {''name'', ''uses'', ''with'', ''run''}"
    using t st by blast
  moreover have "cell_body (hd likelihoods_notebook) ! 1
       = Try [Import [''numpyro'']]
           [(''ImportError'', [Magic ''pip uninstall -y jax jaxlib'',
                               Magic ''pip install -q numpyro jax jaxlib''])]"
    and "cell_body (likelihoods_notebook ! 2) ! 6
       = FunctionDef ''model'' [Assign, Assign, Assign, Assign, Assign, Assign, Expr]"
    and "cell_tags (likelihoods_notebook ! 2) = []"
    by (simp_all add: likelihoods_notebook_def)
  moreover have "job_steps ''news'' news_workflow ! 3
       = Map [(''name'', Str ''Check for news''),
              (''run'', Str ''python -m towncrier check --compare-with origin/main'')]"
    unfolding news_steps by simp
  ultimately show ?thesis using nb by blast
qed

subsection \<open>The classes and functions of the notebooks\<close>

lemma kernel_classes_eq:
  "map fst (filter is_kernel_class all_classes) = [''Multiband'', ''Latent'']
   \<and> (\<forall>c \<in> set all_classes. is_kernel_class c \<longrightarrow>
          fst (snd c) = [''tinygp.kernels.quasisep.Wrapper'']
        \<and> snd (snd c) = [''coord_to_sortable'', ''observation_model''])"
  unfolding all_classes_eq by (simp add: is_kernel_class_def)

lemma notebook_definitions_eq:
  "map notebook_definitions notebooks =
     [[''mean_function'', ''build_gp'', ''loss'', ''build_gp_v2'', ''loss_v2''],
      [''plot_kernel'', ''mean_function'', ''build_gp'', ''loss''],
      [''model'', ''model'', ''guide''],
      [''Transformer'', ''Transformer.__call__'', ''GPLoss'', ''GPLoss.__call__'', ''loss''],
      [''Multiband'', ''Multiband.coord_to_sortable'', ''Multiband.observation_model'',
       ''plot_multiband_sample'', ''Latent'', ''Latent.coord_to_sortable'',
       ''Latent.observation_model'', ''plot_latent_samples'', ''build_gp'', ''loss'',
       ''build_gp'', ''loss'']]"
  by (simp add: notebook_defs notebook_definitions_def)

lemma kernel_class_statements:
  "cell_body (quasisep_custom_notebook ! 1) ! 4
     = ClassDef ''Multiband'' [''tinygp.kernels.quasisep.Wrapper'']
         [AnnAssign, FunctionDef ''coord_to_sortable'' [Return],
          FunctionDef ''observation_model'' [Return]]
   \<and> cell_body (quasisep_custom_notebook ! 6) ! 0
     = ClassDef ''Latent'' [''tinygp.kernels.quasisep.Wrapper'']
         [AnnAssign, AnnAssign, FunctionDef ''coord_to_sortable'' [Return],
          FunctionDef ''observation_model'' [Assign, Assign, Assign, Assign, Assign, Return]]"
  by (simp add: quasisep_custom_notebook_def)

lemma loops_eq:
  "map notebook_loop_definitions notebooks = [[], [], [], [], [''plot_multiband_sample'']]
   \<and> map top_level_loops notebooks
     = [[], [], [], [For [Assign, Assign, Assign]],
        [For [Assign, Assign, Expr], For [Assign, Assign]]]"
  by (simp add: notebook_defs notebook_loop_definitions_def top_level_loops_def)

lemma function_calls_names:
  "map (map fst) function_calls = map notebook_definitions notebooks"
  unfolding notebook_definitions_eq by (simp add: function_calls_def)

lemma function_calls_recursion_free: "list_all recursion_free function_calls"
  by (simp add: function_calls_def recursion_free_def calls_earlier_def callee_def owner_def)

lemma kernel_method_calls:
  "map (map_of (function_calls ! 4))
       [''Multiband.coord_to_sortable'', ''Multiband.observation_model'',
        ''Latent.coord_to_sortable'', ''Latent.observation_model'']
     = [Some [], Some [''self.kernel.observation_model''], Some [],
        Some [''self.kernel.design_matrix'', ''self.kernel.observation_model'',
              ''jnp.asarray'', ''jnp.asarray'']]"
  by (simp add: function_calls_def)

text \<open>
  Claim C6. Every kernel class that the repository defines subclasses the library's
  \<open>tinygp.kernels.quasisep.Wrapper\<close> and defines exactly two methods, \<open>coord_to_sortable\<close> and
  \<open>observation_model\<close>; these classes are \<open>Multiband\<close> and \<open>Latent\<close>. Nothing else of a kernel or
  a solver is implemented. The notebooks define two more classes, the \<open>flax\<close> modules
  \<open>Transformer\<close> and \<open>GPLoss\<close>, and no function besides the mean functions, the builders of
  Gaussian processes, the loss functions, the \<open>numpyro\<close> models with their guide and three
  plotting functions. The methods of the kernel classes are straight-line code; their only
  calls are to the wrapped kernel's \<open>observation_model\<close> and \<open>design_matrix\<close> and to
  \<open>jnp.asarray\<close>. No definition is recursive: a definition calls only names of its notebook
  that are first defined before it. The one definition with a \<open>for\<close> loop is the plotting function
  \<open>plot_multiband_sample\<close>, and three \<open>for\<close> loops stand at the top level of cells: the
  training loop of the transforms tutorial, and in the quasiseparable tutorial a plotting
  loop and the loop that fills the bands of a noise model.
\<close>

theorem kernel_classes_override_two_methods:
  "(\<forall>c \<in> set all_classes. is_kernel_class c \<longrightarrow>
          fst (snd c) = [''tinygp.kernels.quasisep.Wrapper'']
        \<and> snd (snd c) = [''coord_to_sortable'', ''observation_model''])
   \<and> map fst (filter is_kernel_class all_classes) = [''Multiband'', ''Latent'']
   \<and> all_classes =
       [(''Transformer'', [''nn.Module''], [''__call__'']),
        (''GPLoss'', [''nn.Module''], [''__call__'']),
        (''Multiband'', [''tinygp.kernels.quasisep.Wrapper''],
           [''coord_to_sortable'', ''observation_model'']),
        (''Latent'', [''tinygp.kernels.quasisep.Wrapper''],
           [''coord_to_sortable'', ''observation_model''])]
   \<and> map notebook_definitions notebooks =
       [[''mean_function'', ''build_gp'', ''loss'', ''build_gp_v2'', ''loss_v2''],
        [''plot_kernel'', ''mean_function'', ''build_gp'', ''loss''],
        [''model'', ''model'', ''guide''],
        [''Transformer'', ''Transformer.__call__'', ''GPLoss'', ''GPLoss.__call__'', ''loss''],
        [''Multiband'', ''Multiband.coord_to_sortable'', ''Multiband.observation_model'',
         ''plot_multiband_sample'', ''Latent'', ''Latent.coord_to_sortable'',
         ''Latent.observation_model'', ''plot_latent_samples'', ''build_gp'', ''loss'',
         ''build_gp'', ''loss'']]
   \<and> cell_body (quasisep_custom_notebook ! 1) ! 4
       = ClassDef ''Multiband'' [''tinygp.kernels.quasisep.Wrapper'']
           [AnnAssign, FunctionDef ''coord_to_sortable'' [Return],
            FunctionDef ''observation_model'' [Return]]
   \<and> cell_body (quasisep_custom_notebook ! 6) ! 0
       = ClassDef ''Latent'' [''tinygp.kernels.quasisep.Wrapper'']
           [AnnAssign, AnnAssign, FunctionDef ''coord_to_sortable'' [Return],
            FunctionDef ''observation_model'' [Assign, Assign, Assign, Assign, Assign, Return]]
   \<and> map (map_of (function_calls ! 4))
         [''Multiband.coord_to_sortable'', ''Multiband.observation_model'',
          ''Latent.coord_to_sortable'', ''Latent.observation_model'']
       = [Some [], Some [''self.kernel.observation_model''], Some [],
          Some [''self.kernel.design_matrix'', ''self.kernel.observation_model'',
                ''jnp.asarray'', ''jnp.asarray'']]
   \<and> map (map fst) function_calls = map notebook_definitions notebooks
   \<and> list_all recursion_free function_calls
   \<and> map notebook_loop_definitions notebooks = [[], [], [], [], [''plot_multiband_sample'']]
   \<and> map top_level_loops notebooks
       = [[], [], [], [For [Assign, Assign, Assign]],
          [For [Assign, Assign, Expr], For [Assign, Assign]]]"
  using kernel_classes_eq all_classes_eq notebook_definitions_eq kernel_class_statements
    kernel_method_calls function_calls_names function_calls_recursion_free loops_eq
  by blast

theorem kernel_classes_override_two_methods_witness:
  "(''Latent'', [''tinygp.kernels.quasisep.Wrapper''],
       [''coord_to_sortable'', ''observation_model'']) \<in> set all_classes
   \<and> is_kernel_class (''Latent'', [''tinygp.kernels.quasisep.Wrapper''],
       [''coord_to_sortable'', ''observation_model''])
   \<and> \<not> is_kernel_class (''GPLoss'', [''nn.Module''], [''__call__''])
   \<and> recursion_free (function_calls ! 4)
   \<and> callee ''loss'' ''build_gp'' = ''build_gp''
   \<and> first_index (map fst (function_calls ! 4)) ''build_gp'' = 8
   \<and> first_index (map fst (function_calls ! 4)) ''loss'' = 9
   \<and> callee ''Multiband.observation_model'' ''self.kernel.observation_model''
       = ''Multiband.kernel.observation_model''
   \<and> ''Multiband.kernel.observation_model'' \<notin> set (map fst (function_calls ! 4))"
proof -
  note t = kernel_classes_override_two_methods
  have all: "all_classes =
       [(''Transformer'', [''nn.Module''], [''__call__'']),
        (''GPLoss'', [''nn.Module''], [''__call__'']),
        (''Multiband'', [''tinygp.kernels.quasisep.Wrapper''],
           [''coord_to_sortable'', ''observation_model'']),
        (''Latent'', [''tinygp.kernels.quasisep.Wrapper''],
           [''coord_to_sortable'', ''observation_model''])]"
    using t by blast
  have names: "map (map fst) function_calls = map notebook_definitions notebooks"
    and defs: "map notebook_definitions notebooks =
       [[''mean_function'', ''build_gp'', ''loss'', ''build_gp_v2'', ''loss_v2''],
        [''plot_kernel'', ''mean_function'', ''build_gp'', ''loss''],
        [''model'', ''model'', ''guide''],
        [''Transformer'', ''Transformer.__call__'', ''GPLoss'', ''GPLoss.__call__'', ''loss''],
        [''Multiband'', ''Multiband.coord_to_sortable'', ''Multiband.observation_model'',
         ''plot_multiband_sample'', ''Latent'', ''Latent.coord_to_sortable'',
         ''Latent.observation_model'', ''plot_latent_samples'', ''build_gp'', ''loss'',
         ''build_gp'', ''loss'']]"
    and free: "list_all recursion_free function_calls"
    using t by blast+
  have "length (map (map fst) function_calls) = 5"
    unfolding names defs by simp
  then have len: "length function_calls = 5"
    by simp
  have n4: "map fst (function_calls ! 4)
       = [''Multiband'', ''Multiband.coord_to_sortable'', ''Multiband.observation_model'',
         ''plot_multiband_sample'', ''Latent'', ''Latent.coord_to_sortable'',
         ''Latent.observation_model'', ''plot_latent_samples'', ''build_gp'', ''loss'',
         ''build_gp'', ''loss'']"
  proof -
    have "map (map fst) function_calls ! 4 = map fst (function_calls ! 4)"
      using len by simp
    then show ?thesis unfolding names defs by simp
  qed
  have "recursion_free (function_calls ! 4)"
    using free len by (simp add: list_all_length)
  moreover have "is_kernel_class (''Latent'', [''tinygp.kernels.quasisep.Wrapper''],
       [''coord_to_sortable'', ''observation_model''])"
    and "\<not> is_kernel_class (''GPLoss'', [''nn.Module''], [''__call__''])"
    by (simp_all add: is_kernel_class_def)
  moreover have "callee ''loss'' ''build_gp'' = ''build_gp''"
    and "callee ''Multiband.observation_model'' ''self.kernel.observation_model''
       = ''Multiband.kernel.observation_model''"
    by (simp_all add: callee_def owner_def)
  ultimately show ?thesis unfolding n4 all by simp
qed

section \<open>Properties of float64 rounding\<close>

lemma round_half_even_of_int: "round_half_even (of_int n) = n"
  by (simp add: round_half_even_def)

lemma round64_zero: "round64 0 = Fin 0"
  by (simp add: round64_def)

text \<open>A power of two from \<open>2\<^sup>-\<^sup>1\<^sup>0\<^sup>2\<^sup>2\<close> on is a float64, up to the overflow at \<open>2\<^sup>1\<^sup>0\<^sup>2\<^sup>4\<close>.\<close>

lemma round64_powr:
  assumes "- 1022 \<le> k"
  shows "round64 (2 powr of_int k) = (if 1024 \<le> k then PInf else Fin (2 powr of_int k))"
proof -
  let ?x = "2 powr (of_int k) :: real"
  have pos: "0 < ?x" by simp
  have e: "max \<lfloor>log 2 \<bar>?x\<bar>\<rfloor> (- 1022) = k" using assms by simp
  have q: "?x / 2 powr of_int (k - 52) = of_int (2 ^ 52)"
  proof -
    have "?x / 2 powr of_int (k - 52) = 2 powr (of_int k - of_int (k - 52))"
      by (simp add: powr_diff)
    also have "\<dots> = 2 powr 52" by simp
    also have "\<dots> = of_int (2 ^ 52)" by simp
    finally show ?thesis .
  qed
  have y: "of_int (round_half_even (?x / 2 powr of_int (k - 52))) * 2 powr of_int (k - 52) = ?x"
  proof -
    have "of_int (2 ^ 52) * 2 powr of_int (k - 52)
        = (2 powr 52) * (2::real) powr of_int (k - 52)"
      by simp
    also have "\<dots> = 2 powr (52 + of_int (k - 52))" by (simp only: powr_add)
    also have "\<dots> = ?x" by simp
    finally show ?thesis unfolding q round_half_even_of_int .
  qed
  have cmp: "(2 ^ 1024 \<le> \<bar>?x\<bar>) \<longleftrightarrow> 1024 \<le> k"
  proof -
    have p: "(2::real) ^ 1024 = 2 powr real 1024"
      by (rule powr_realpow [symmetric]) simp
    have "(2 powr real 1024 \<le> (2::real) powr of_int k) \<longleftrightarrow> real 1024 \<le> of_int k"
      by (rule powr_le_cancel_iff) simp
    also have "\<dots> \<longleftrightarrow> 1024 \<le> k" by linarith
    finally show ?thesis unfolding p by (simp only: abs_of_pos [OF pos])
  qed
  have ne: "?x \<noteq> 0" using pos by simp
  show ?thesis
    unfolding round64_def Let_def e y
    by (simp only: ne cmp pos if_True if_False)
qed

lemma round64_pow: "round64 (2 ^ n) = (if 1024 \<le> n then PInf else Fin (2 ^ n))"
  using round64_powr [of "int n"] by (simp add: powr_realpow)

lemmas round64_small =
  round64_pow [of 0, simplified] round64_pow [of 1, simplified] round64_pow [of 2, simplified]
  round64_pow [of 3, simplified] round64_pow [of 4, simplified] round64_pow [of 5, simplified]
  round64_pow [of 6, simplified]

text \<open>Underflow: a positive number below half the least subnormal number rounds to zero.\<close>

lemma round64_tiny:
  assumes "0 < x" and "x < 2 powr (- 1075)"
  shows "round64 x = Fin 0"
proof -
  have lt: "x < 2 powr (- 1022)"
    using assms(2) by (rule less_trans) simp
  have "log 2 x < - 1022"
    using assms(1) lt by (simp add: log_less_iff)
  then have "\<lfloor>log 2 x\<rfloor> < - 1022" by linarith
  then have e: "max \<lfloor>log 2 \<bar>x\<bar>\<rfloor> (- 1022) = - 1022" using assms(1) by simp
  have u: "2 powr of_int (- 1022 - 52) = (2::real) powr (- 1074)" by simp
  define q where "q = x / 2 powr (- 1074)"
  have "q < 2 powr (- 1075) / 2 powr (- 1074)"
    unfolding q_def using assms(2) by (simp add: divide_strict_right_mono)
  also have "\<dots> = 2 powr (- 1075 - (- 1074))" by (simp only: powr_diff)
  also have "\<dots> = 1 / 2" by (simp add: powr_minus field_simps)
  finally have q: "q < 1 / 2" .
  have q0: "0 < q" unfolding q_def using assms(1) by simp
  have fl: "\<lfloor>q\<rfloor> = 0" using q q0 by linarith
  have "round_half_even q = 0"
    using q by (simp add: round_half_even_def Let_def fl)
  then show ?thesis
    unfolding round64_def Let_def e u q_def [symmetric] using assms(1) by simp
qed

lemma exp_minus_1000: "exp (- 1000) < (2::real) powr (- 1075)"
proof -
  have e1: "5 / 2 \<le> exp (1::real)"
    using exp_lower_Taylor_quadratic [of "1::real"] by simp
  have "(32::real) < (5 / 2) ^ 4" by (simp add: power_divide)
  also have "\<dots> \<le> exp 1 ^ 4" using e1 by (intro power_mono) simp_all
  finally have "(32::real) < exp 1 ^ 4" .
  then have "(32::real) ^ 250 < (exp 1 ^ 4) ^ 250"
    by (intro power_strict_mono) simp_all
  also have "\<dots> = exp (1000::real)"
    by (simp add: exp_of_nat_mult [symmetric] power_mult [symmetric])
  finally have big: "(32::real) ^ 250 < exp 1000" .
  have "(2::real) powr 1075 \<le> 2 powr 1250" by simp
  also have "\<dots> = (2 ^ 5) ^ 250" by (simp add: power_mult [symmetric])
  also have "\<dots> = (32::real) ^ 250" by simp
  finally have "(2::real) powr 1075 < exp 1000" using big by simp
  then have "inverse (exp (1000::real)) < inverse (2 powr 1075)"
    by (intro less_imp_inverse_less) simp_all
  then show ?thesis by (simp add: exp_minus powr_minus)
qed

section \<open>Properties of the mean function\<close>

lemma mean_function_Scalar:
  "mean_function p (Scalar x) =
     matmul_vv (amps p) [1, exp (- 0.5 * ((x - loc p) / exp (log_width p)) ^ 2)]"
  by (simp add: mean_function_def jnp_array_1_def)

lemma mean_function_Vector: "mean_function p (Vector xs) = Inl ShapeError"
  by (simp add: mean_function_def jnp_array_1_def)

text \<open>
  Claim C7, as stated: for every scalar input the code returns exactly
  \<open>b + a * exp (- (x - loc)\<^sup>2 / (2 * (exp log_width)\<^sup>2))\<close>. It fails in the float64 arithmetic of
  the code. At \<open>x = loc = 5\<close> and \<open>log_width = - 1000\<close>, with \<open>amps = [1, 2]\<close>, the width
  \<open>exp (- 1000)\<close> underflows to zero, \<open>(x - loc) / 0\<close> is \<open>0 / 0\<close>, and the function returns NaN,
  where the formula gives 3.
\<close>

theorem mean_function_nan_counterexample:
  "mean_function_f64 \<lparr>amps = [Fin 1, Fin 2], loc = Fin 5, log_width = Fin (- 1000)\<rparr>
       (Scalar (Fin 5)) = Inr (Scalar NaN)
   \<and> (1::real) + 2 * exp (- ((5 - 5) ^ 2) / (2 * (exp (- 1000)) ^ 2)) = 3"
proof -
  have d: "f64_sub (Fin 5) (Fin 5) = Fin 0"
    by (simp add: f64_sub_def round64_zero)
  have r0: "round64 (exp (- 1000)) = Fin 0"
    using round64_tiny [OF _ exp_minus_1000] by simp
  have "f64_dot [Fin 1, Fin 2] [1, NaN] = NaN"
    by (simp add: f64_dot_def one_f64_def round64_small)
  then have "mean_function_f64
       \<lparr>amps = [Fin 1, Fin 2], loc = Fin 5, log_width = Fin (- 1000)\<rparr> (Scalar (Fin 5))
     = Inr (Scalar NaN)"
    by (simp add: mean_function_f64_def jnp_array_1_def matmul_vv_f64_def d r0)
  then show ?thesis by simp
qed

text \<open>
  Claim C7, amended. For every scalar input \<open>x\<close> and all parameters with scalar \<open>loc\<close> and
  \<open>log_width\<close> and \<open>amps = [b, a]\<close>, whatever further keys they hold, the mean function
  returns the inner product of \<open>amps\<close> with \<open>[1, exp (- 0.5 * ((x - loc) / exp log_width)\<^sup>2)]\<close>,
  computed in float64, every operation rounded. With the arithmetic read as exact, over the
  reals, that value is \<open>b + a * exp (- (x - loc)\<^sup>2 / (2 * (exp log_width)\<^sup>2))\<close>; the float64
  value need not be equal to it.
\<close>

theorem mean_function_value:
  "mean_function_f64 \<lparr>amps = [B, A], loc = L, log_width = W, \<dots> = more'\<rparr> (Scalar X)
     = Inr (Scalar (f64_dot [B, A]
         [1, f64_exp (f64_mul (Fin (- (1 / 2)))
               (f64_mul (f64_div (f64_sub X L) (f64_exp W))
                        (f64_div (f64_sub X L) (f64_exp W))))]))
   \<and> mean_function \<lparr>amps = [b, a], loc = l, log_width = w, \<dots> = more\<rparr> (Scalar x)
     = Inr (Scalar (b + a * exp (- ((x - l) ^ 2) / (2 * (exp w) ^ 2))))
   \<and> b + a * exp (- ((x - l) ^ 2) / (2 * (exp w) ^ 2))
     = dot [b, a] [1, exp (- 0.5 * ((x - l) / exp w) ^ 2)]"
proof -
  have "mean_function_f64 \<lparr>amps = [B, A], loc = L, log_width = W, \<dots> = more'\<rparr> (Scalar X)
     = Inr (Scalar (f64_dot [B, A]
         [1, f64_exp (f64_mul (Fin (- (1 / 2)))
               (f64_mul (f64_div (f64_sub X L) (f64_exp W))
                        (f64_div (f64_sub X L) (f64_exp W))))]))"
    by (simp add: mean_function_f64_def jnp_array_1_def matmul_vv_f64_def)
  then show ?thesis
    by (simp add: mean_function_Scalar matmul_vv_def dot_def power_divide)
qed

text \<open>
  Claim C4. With scalar \<open>loc\<close> and \<open>log_width\<close> and a length-2 \<open>amps\<close>, the mean function
  returns a value on every single scalar coordinate and raises a shape error on every
  batched vector of more than one coordinate, because \<open>jnp.array([1, mod])\<close> does not
  assemble a scalar and a vector.
\<close>

theorem mean_function_per_point:
  assumes "length (amps p) = 2"
  shows "(\<forall>x. \<exists>y. mean_function p (Scalar x) = Inr (Scalar y))
       \<and> (\<forall>xs. 1 < length xs \<longrightarrow>
             mean_function p (Vector xs) = Inl ShapeError
           \<and> jnp_array_1 (Vector xs) = Inl ShapeError)"
  using assms
  by (simp add: mean_function_Scalar mean_function_Vector matmul_vv_def jnp_array_1_def)

theorem mean_function_per_point_witness:
  "length (amps \<lparr>amps = [1 / 10, 3 / 10], loc = 5, log_width = 0\<rparr>) = 2
   \<and> (\<exists>y. mean_function \<lparr>amps = [1 / 10, 3 / 10], loc = 5, log_width = 0\<rparr> (Scalar 4)
            = Inr (Scalar y))
   \<and> mean_function \<lparr>amps = [1 / 10, 3 / 10], loc = 5, log_width = 0\<rparr> (Vector [0, 10])
       = Inl ShapeError
   \<and> jnp_array_1 (Vector [0, 10 :: real]) = Inl ShapeError"
  using mean_function_per_point [of "\<lparr>amps = [1 / 10, 3 / 10], loc = 5, log_width = 0\<rparr>"]
  by simp

section \<open>Properties of the kernel classes\<close>






section \<open>Properties of the banded observation model\<close>

lemma mask_put_map:
  assumes "length view = length m" and "length m = length ys"
  shows "mask_put view m (map f (map fst (filter snd (zip ys m))))
       = map (\<lambda>(x, b, y). if b then f y else x) (zip view (zip m ys))"
  using assms
proof (induction view m ys rule: list_induct3)
  case Nil
  then show ?case by simp
next
  case (Cons x xs b bs y ys)
  then show ?case by (cases b) simp_all
qed

lemma length_filter_mask:
  "length ys = length m \<Longrightarrow> length (filter snd (zip ys m)) = length (filter id m)"
proof (induction ys m rule: list_induct2)
  case Nil
  then show ?case by simp
next
  case (Cons y ys b bs)
  then show ?case by simp
qed

lemma np_take_valid:
  assumes "\<forall>c \<in> set ids. 0 \<le> c \<and> c < int (length xs)"
  shows "np_take xs ids = Inr (map (\<lambda>c. xs ! nat c) ids)"
  using assms by (induction ids) (simp_all add: np_getitem_def)

lemma fold_max_le:
  fixes x :: nat
  assumes "x \<le> n" and "\<forall>y \<in> set ys. y \<le> n"
  shows "fold max ys x \<le> n"
  using assms by (induction ys arbitrary: x) simp_all

lemma bandwidth_of_bound:
  assumes "calib_id \<noteq> []"
  shows "\<exists>bw. bandwidth_of calib_id = Inr bw \<and> bw < length calib_id"
proof -
  let ?cs = "map (count_list calib_id) (remdups calib_id)"
  have ne: "?cs \<noteq> []" using assms by simp
  then obtain c cs where cs: "?cs = c # cs" by (cases ?cs) auto
  have "\<forall>y \<in> set ?cs. y \<le> length calib_id"
    by (auto simp: count_le_length)
  then have "fold max cs c \<le> length calib_id"
    unfolding cs by (intro fold_max_le) simp_all
  moreover have "0 < length calib_id" using assms by simp
  ultimately have "fold max cs c - 1 < length calib_id" by linarith
  then show ?thesis by (simp add: bandwidth_of_def py_max_def cs)
qed

lemma slice_to_nonneg: "0 \<le> k \<Longrightarrow> slice_to k xs = take (nat k) xs"
  by (simp add: slice_to_def)

lemma slice_from_nonneg: "0 \<le> k \<Longrightarrow> slice_from k xs = drop (nat k) xs"
  by (simp add: slice_from_def)

lemma band_step_result:
  assumes len: "length calib_id = nt"
    and j: "j < nt"
    and valid: "\<forall>c \<in> set calib_id. 0 \<le> c \<and> c < int (length caliberr)"
    and rows: "length od = nt"
  shows "band_step nt calib_id caliberr j od
       = Inr (map (\<lambda>i. if (i + j + 1 < nt \<and> calib_id ! i = calib_id ! (i + j + 1))
                         then (od ! i)[j := (caliberr ! nat (calib_id ! i)) ^ 2] else od ! i)
                [0 ..< nt])"
proof -
  define k where "k = nt - j - 1"
  have k: "int nt - int j - 1 = int k" "0 \<le> int k" using j by (auto simp: k_def)
  define a where "a = take k calib_id"
  define b where "b = drop (j + 1) calib_id"
  have la: "length a = k" and lb: "length b = k"
    using len j by (auto simp: a_def b_def k_def)
  define m where "m = map2 (=) a b"
  have lm: "length m = k" by (simp add: m_def la lb)
  have eq: "np_equal a b = Inr m" by (simp add: np_equal_def la lb m_def)
  have sel: "mask_select a m = Inr (map fst (filter snd (zip a m)))"
    by (simp add: mask_select_def la lm)
  have "\<forall>c \<in> set (map fst (filter snd (zip a m))). 0 \<le> c \<and> c < int (length caliberr)"
    using valid by (auto simp: a_def dest!: set_zip_leftD in_set_takeD)
  then have tk: "np_take caliberr (map fst (filter snd (zip a m)))
      = Inr (map (\<lambda>c. caliberr ! nat c) (map fst (filter snd (zip a m))))"
    by (rule np_take_valid)
  define view where "view = map (\<lambda>row. row ! j) (take k od)"
  have lv: "length view = k" using rows j by (simp add: view_def k_def)
  have asg: "mask_assign view m
        (map (\<lambda>x. x ^ 2) (map (\<lambda>c. caliberr ! nat c) (map fst (filter snd (zip a m)))))
      = Inr (map (\<lambda>(x, b, y). if b then (caliberr ! nat y) ^ 2 else x) (zip view (zip m a)))"
    using mask_put_map [of view m a "\<lambda>c. (caliberr ! nat c) ^ 2"] length_filter_mask [of a m]
    by (simp add: mask_assign_def lv lm la comp_def)
  define col where
    "col = map (\<lambda>(x, b, y). if b then (caliberr ! nat y) ^ 2 else x) (zip view (zip m a))"
  have lc: "length col = k" by (simp add: col_def lv lm la)
  have st: "slice_to (int k) calib_id = a"
    by (simp add: slice_to_nonneg a_def)
  have sf: "slice_from (int j + 1) calib_id = b"
    by (simp add: slice_from_nonneg b_def nat_add_distrib)
  have cv: "column_view (int k) j od = view"
    by (simp add: column_view_def slice_to_nonneg view_def)
  have step: "band_step nt calib_id caliberr j od = Inr (column_store (int k) j col od)"
    unfolding band_step_def Let_def k st sf cv
    by (simp only: eq sel tk asg col_def sum.case)
  have kk: "k \<le> nt" by (simp add: k_def)
  have store: "column_store (int k) j col od
      = map2 (\<lambda>row v. row[j := v]) (take k od) col @ drop k od"
    using rows kk by (simp add: column_store_def slice_to_nonneg)
  have "map2 (\<lambda>row v. row[j := v]) (take k od) col @ drop k od
      = map (\<lambda>i. if (i + j + 1 < nt \<and> calib_id ! i = calib_id ! (i + j + 1))
                         then (od ! i)[j := (caliberr ! nat (calib_id ! i)) ^ 2] else od ! i)
                [0 ..< nt]" (is "?L = ?R")
  proof (rule nth_equalityI)
    show "length ?L = length ?R" using rows kk by (simp add: lc)
  next
    fix i assume "i < length ?L"
    then have i: "i < nt" using rows kk by (simp add: lc)
    show "?L ! i = ?R ! i"
    proof (cases "i < k")
      case True
      then have ij: "i + j + 1 < nt" using j by (simp add: k_def)
      have ai: "a ! i = calib_id ! i" using True by (simp add: a_def)
      have bi: "b ! i = calib_id ! (i + j + 1)"
        using True len ij by (simp add: b_def add.commute add.left_commute)
      have mi: "m ! i = (i + j + 1 < nt \<and> calib_id ! i = calib_id ! (i + j + 1))"
        using True ij len by (simp add: m_def la lb ai bi)
      have vi: "view ! i = od ! i ! j" using True rows kk by (simp add: view_def)
      have ci: "col ! i = (if (i + j + 1 < nt \<and> calib_id ! i = calib_id ! (i + j + 1))
                           then (caliberr ! nat (calib_id ! i)) ^ 2 else od ! i ! j)"
        using True by (simp add: col_def lv lm la mi ai vi)
      have "?L ! i = (od ! i)[j := col ! i]"
        using True rows kk by (simp add: nth_append lc)
      then show ?thesis using i by (simp add: ci)
    next
      case False
      then have "\<not> i + j + 1 < nt" using j by (simp add: k_def)
      moreover have "?L ! i = od ! i"
        using False i rows kk by (simp add: nth_append lc)
      ultimately show ?thesis using i by simp
    qed
  qed
  then show ?thesis by (simp add: step store)
qed

lemma fold_update_length:
  "length (fold (\<lambda>j row. if P j then row[j := e] else row) js row) = length row"
  by (induction js arbitrary: row) auto

lemma fold_update_nth:
  "j' < length row \<Longrightarrow>
   fold (\<lambda>j row. if P j then row[j := e] else row) js row ! j'
     = (if j' \<in> set js \<and> P j' then e else row ! j')"
proof (induction js arbitrary: row)
  case Nil
  then show ?case by simp
next
  case (Cons a js)
  show ?case
  proof (cases "P a")
    case False
    then show ?thesis using Cons by auto
  next
    case True
    have "row[a := e] ! j' = (if a = j' then e else row ! j')"
      using Cons.prems by (simp add: nth_list_update)
    then show ?thesis using True Cons.IH [of "row[a := e]"] Cons.prems by auto
  qed
qed

lemma band_loop_result:
  assumes len: "length calib_id = nt"
    and valid: "\<forall>c \<in> set calib_id. 0 \<le> c \<and> c < int (length caliberr)"
    and js: "\<forall>j \<in> set js. j < nt"
    and rows: "length od = nt"
  shows "\<exists>od'. band_loop nt calib_id caliberr js od = Inr od' \<and> length od' = nt
     \<and> (\<forall>i<nt. od' ! i
          = fold (\<lambda>j row. if i + j + 1 < nt \<and> calib_id ! i = calib_id ! (i + j + 1)
                           then row[j := (caliberr ! nat (calib_id ! i)) ^ 2] else row)
              js (od ! i))"
  using js rows
proof (induction js arbitrary: od)
  case Nil
  then show ?case by simp
next
  case (Cons j js)
  let ?od1 = "map (\<lambda>i. if i + j + 1 < nt \<and> calib_id ! i = calib_id ! (i + j + 1)
                         then (od ! i)[j := (caliberr ! nat (calib_id ! i)) ^ 2] else od ! i)
                [0 ..< nt]"
  have step: "band_step nt calib_id caliberr j od = Inr ?od1"
    using Cons.prems by (intro band_step_result len valid) simp_all
  have "length ?od1 = nt" by simp
  with Cons.IH [of ?od1] Cons.prems(1)
  obtain od' where od': "band_loop nt calib_id caliberr js ?od1 = Inr od'" "length od' = nt"
    "\<forall>i<nt. od' ! i
          = fold (\<lambda>j row. if i + j + 1 < nt \<and> calib_id ! i = calib_id ! (i + j + 1)
                           then row[j := (caliberr ! nat (calib_id ! i)) ^ 2] else row)
              js (?od1 ! i)"
    by auto
  let ?upd = "\<lambda>i j row. if i + j + 1 < nt \<and> calib_id ! i = calib_id ! (i + j + 1)
                           then row[j := (caliberr ! nat (calib_id ! i)) ^ 2] else row"
  have row: "?od1 ! i = ?upd i j (od ! i)" if "i < nt" for i
    using that by (simp del: list_update_id)
  have "od' ! i = fold (?upd i) (j # js) (od ! i)" if "i < nt" for i
    using od'(3) that by (simp only: row [OF that] fold_simps comp_def)
  then show ?case
    using od'(1,2) by (simp only: band_loop.simps step sum.case) blast
qed

text \<open>
  Claim C9. The banded construction is block-diagonal by calibration block. When \<open>calib_id\<close>
  has \<open>nt\<close> entries, at least one, each an index into \<open>caliberr\<close>, the cell builds a matrix of
  \<open>nt\<close> rows and \<open>bandwidth\<close> columns whose entry at row \<open>i\<close> and offset \<open>j < bandwidth\<close> is
  \<open>caliberr[calib_id[i]]\<^sup>2\<close> when \<open>i + j + 1 < nt\<close> and observations \<open>i\<close> and \<open>i + j + 1\<close> share a
  calibration block, and 0 otherwise.
\<close>

theorem off_diags_block_diagonal:
  assumes len: "length calib_id = nt"
    and ne: "calib_id \<noteq> []"
    and valid: "\<forall>c \<in> set calib_id. 0 \<le> c \<and> c < int (length caliberr)"
  shows "\<exists>bandwidth off_diags.
           bandwidth_of calib_id = Inr bandwidth
         \<and> build_off_diags nt calib_id caliberr = Inr off_diags
         \<and> length off_diags = nt
         \<and> (\<forall>i<nt. length (off_diags ! i) = bandwidth
              \<and> (\<forall>j<bandwidth. off_diags ! i ! j
                    = (if i + j + 1 < nt \<and> calib_id ! i = calib_id ! (i + j + 1)
                       then (caliberr ! nat (calib_id ! i)) ^ 2 else 0)))"
proof -
  obtain bw where bw: "bandwidth_of calib_id = Inr bw" "bw < nt"
    using bandwidth_of_bound [OF ne] len by auto
  have "\<forall>j \<in> set [0 ..< bw]. j < nt" using bw by simp
  moreover have "length (replicate nt (replicate bw (0::real))) = nt" by simp
  ultimately obtain od where od:
    "band_loop nt calib_id caliberr [0 ..< bw] (replicate nt (replicate bw 0)) = Inr od"
    "length od = nt"
    "\<forall>i<nt. od ! i
          = fold (\<lambda>j row. if i + j + 1 < nt \<and> calib_id ! i = calib_id ! (i + j + 1)
                           then row[j := (caliberr ! nat (calib_id ! i)) ^ 2] else row)
              [0 ..< bw] (replicate nt (replicate bw 0) ! i)"
    using band_loop_result [OF len valid] by blast
  have "build_off_diags nt calib_id caliberr = Inr od"
    by (simp add: build_off_diags_def bw od)
  moreover have "\<forall>i<nt. length (od ! i) = bw
              \<and> (\<forall>j<bw. od ! i ! j
                    = (if i + j + 1 < nt \<and> calib_id ! i = calib_id ! (i + j + 1)
                       then (caliberr ! nat (calib_id ! i)) ^ 2 else 0))"
    using od(3) by (simp add: fold_update_nth fold_update_length)
  ultimately show ?thesis using bw od(2) by blast
qed

theorem off_diags_block_diagonal_witness:
  "length [0, 0, 0, 1, 1 :: int] = 5
   \<and> (\<exists>off_diags. build_off_diags 5 [0, 0, 0, 1, 1] [2, 3] = Inr off_diags
         \<and> length off_diags = 5
         \<and> off_diags ! 0 ! 1 = 4 \<and> off_diags ! 1 ! 1 = 0
         \<and> off_diags ! 3 ! 0 = 9 \<and> off_diags ! 4 ! 0 = 0)"
proof -
  have bw: "bandwidth_of [0, 0, 0, 1, 1] = Inr 2"
    by (simp add: bandwidth_of_def py_max_def)
  obtain od where od: "build_off_diags 5 [0, 0, 0, 1, 1] [2, 3] = Inr od" "length od = 5"
    and entry: "\<forall>i<5. \<forall>j<2. od ! i ! j
        = (if i + j + 1 < 5 \<and> [0, 0, 0, 1, 1 :: int] ! i = [0, 0, 0, 1, 1] ! (i + j + 1)
           then ([2, 3] ! nat ([0, 0, 0, 1, 1] ! i)) ^ 2 else 0)"
    using off_diags_block_diagonal [of "[0, 0, 0, 1, 1]" 5 "[2, 3]"] bw by auto
  have "od ! 0 ! 1 = 4" using entry [rule_format, of 0 1] by simp
  moreover have "od ! 1 ! 1 = 0" using entry [rule_format, of 1 1] by simp
  moreover have "od ! 3 ! 0 = 9" using entry [rule_format, of 3 0] by simp
  moreover have "od ! 4 ! 0 = 0" using entry [rule_format, of 4 0] by simp
  ultimately show ?thesis using od by simp
qed

end
